theory Spec2Isabelle
  imports Main
begin

section \<open>JavaScript values that cross the network boundary\<close>

text \<open>
  The client reads response bodies with \<^verbatim>\<open>response.json()\<close> and only ever tests the
  decoded values for truthiness, reads properties from them, converts them to a string
  (the \<^verbatim>\<open>Error\<close> constructor) or passes them on. A number is kept as its decimal
  rendering (what \<^verbatim>\<open>String(x)\<close> gives): zero, also written \<^verbatim>\<open>-0\<close> or
  \<^verbatim>\<open>0.0\<close> in the body, is rendered \<^verbatim>\<open>0\<close>. An object is the list of its own
  properties; the first binding of a name is its value. Text is a list of bytes (UTF-8).
  The JavaScript value \<^verbatim>\<open>undefined\<close> is \<open>None\<close> of \<open>json option\<close>.
\<close>

datatype json =
    JNull
  | JBool bool
  | JNum string
  | JStr string
  | JArr "json list"
  | JObj "(string \<times> json) list"

text \<open>
  Exceptions. \<open>ApiError\<close> is the class of \<^verbatim>\<open>services/api.js\<close> (message, status, code);
  \<open>NativeError\<close> is any built-in exception (TypeError, SyntaxError, DOMException), of which
  the code reads only the message.
\<close>

datatype js_error =
    ApiError string nat "json option"
  | NativeError string

fun is_ApiError :: "js_error \<Rightarrow> bool" where
  "is_ApiError (ApiError m st c) = True"
| "is_ApiError (NativeError m) = False"

fun err_message :: "js_error \<Rightarrow> string" where
  "err_message (ApiError m st c) = m"
| "err_message (NativeError m) = m"

fun err_status :: "js_error \<Rightarrow> nat option" where
  "err_status (ApiError m st c) = Some st"
| "err_status (NativeError m) = None"

fun err_code :: "js_error \<Rightarrow> json option" where
  "err_code (ApiError m st c) = c"
| "err_code (NativeError m) = None"

text \<open>
  Sequencing of steps that may throw: the first exception ends the computation, as it does
  inside a \<^verbatim>\<open>try\<close> block.
\<close>

definition bind_err :: "'x + 'a \<Rightarrow> ('a \<Rightarrow> 'x + 'b) \<Rightarrow> 'x + 'b" where
  "bind_err r f = (case r of Inr v \<Rightarrow> f v | Inl e \<Rightarrow> Inl e)"

text \<open>Truthiness, as tested by \<^verbatim>\<open>||\<close> and \<^verbatim>\<open>? :\<close>.\<close>

fun truthy :: "json option \<Rightarrow> bool" where
  "truthy None = False"
| "truthy (Some JNull) = False"
| "truthy (Some (JBool b)) = b"
| "truthy (Some (JNum r)) = (r \<noteq> ''0'')"
| "truthy (Some (JStr s)) = (s \<noteq> [])"
| "truthy (Some (JArr xs)) = True"
| "truthy (Some (JObj kvs)) = True"

text \<open>
  Property read \<^verbatim>\<open>v.name\<close>, for the names the client reads (message, code, id, content,
  sources, status, chunks_created, ...), none of which is inherited from a prototype:
  reading from \<^verbatim>\<open>null\<close> throws a TypeError, reading from a string, number, boolean or
  array gives \<^verbatim>\<open>undefined\<close>.
\<close>

fun get_prop :: "json \<Rightarrow> string \<Rightarrow> js_error + json option" where
  "get_prop JNull name =
     Inl (NativeError (''Cannot read properties of null (reading '' @ [CHR 0x27] @ name @ [CHR 0x27] @ '')''))"
| "get_prop (JObj kvs) name = Inr (map_of kvs name)"
| "get_prop v name = Inr None"

text \<open>
  \<^verbatim>\<open>ToString\<close>, as applied by \<^verbatim>\<open>super(message)\<close> in the constructor of ApiError. An
  array is joined with commas, \<^verbatim>\<open>null\<close> elements printing as the empty string; a plain
  object prints as \<^verbatim>\<open>[object Object]\<close> unless it has an own property \<^verbatim>\<open>toString\<close>, which
  decoded JSON cannot make callable, so that the conversion throws a TypeError.
\<close>

fun to_string :: "json \<Rightarrow> js_error + string"
and join_elems :: "json list \<Rightarrow> js_error + string" where
  "to_string JNull = Inr ''null''"
| "to_string (JBool b) = Inr (if b then ''true'' else ''false'')"
| "to_string (JNum r) = Inr r"
| "to_string (JStr s) = Inr s"
| "to_string (JArr xs) = join_elems xs"
| "to_string (JObj kvs) =
     (if map_of kvs ''toString'' = None then Inr ''[object Object]''
      else Inl (NativeError ''Cannot convert object to primitive value''))"
| "join_elems [] = Inr []"
| "join_elems [x] = (if x = JNull then Inr [] else to_string x)"
| "join_elems (x # y # ys) =
     (case ((if x = JNull then Inr [] else to_string x), join_elems (y # ys)) of
        (Inr a, Inr b) \<Rightarrow> Inr (a @ '','' @ b)
      | (Inl e, _) \<Rightarrow> Inl e
      | (Inr a, Inl e) \<Rightarrow> Inl e)"

text \<open>Decimal rendering of a natural number (a status code, a clock reading).\<close>

definition digit_char :: "nat \<Rightarrow> char" where
  "digit_char d = ''0123456789'' ! d"

fun show_nat :: "nat \<Rightarrow> string" where
  "show_nat n =
     (if n < 10 then [digit_char n]
      else show_nat (n div 10) @ [digit_char (n mod 10)])"

declare show_nat.simps [simp del]

section \<open>The network and the clock\<close>

text \<open>
  A \<^verbatim>\<open>File\<close> handed to the upload (its name and size are all the client reads), and the
  body of a request: the object given to \<^verbatim>\<open>JSON.stringify\<close> (properties whose value is
  \<^verbatim>\<open>undefined\<close> are left out, as \<^verbatim>\<open>JSON.stringify\<close> does), or the \<^verbatim>\<open>FormData\<close> of an
  upload (the file and the optional source).
\<close>

record js_file =
  file_name :: string
  file_size :: nat

datatype req_body =
    JsonBody json
  | FormBody js_file "string option"

record http_request =
  req_url :: string
  req_method :: "string option"
  req_headers :: "(string \<times> string) list"
  req_body :: "req_body option"
  req_timeout :: "nat option"

text \<open>
  What \<^verbatim>\<open>fetch\<close> gives back. A response has its status, the outcome of
  \<^verbatim>\<open>response.json()\<close> (\<open>Inl\<close>: it rejects, with an error of that message) and its body
  stream: the text of each successful \<^verbatim>\<open>reader.read()\<close> as \<^verbatim>\<open>TextDecoder\<close> returns it,
  or a read that rejects; after the last step the reader reports \<^verbatim>\<open>done\<close>. \<open>None\<close> is a
  response whose \<^verbatim>\<open>body\<close> is \<^verbatim>\<open>null\<close>. A fetch that never settles is outside the model.
\<close>

datatype read_step = Chunk string | ReadFails string

record response =
  resp_status :: nat
  resp_json :: "string + json"
  resp_body :: "read_step list option"

datatype fetch_outcome = FetchRejects string | FetchResolves response

definition ok :: "response \<Rightarrow> bool" where
  "ok r = (200 \<le> resp_status r \<and> resp_status r \<le> 299)"

text \<open>
  The environment of a run: \<open>net k rq\<close> is the outcome of the request \<open>rq\<close> when it is the
  \<open>k\<close>-th fetch issued (so the backend may fail and recover over time), \<open>clock k\<close> is the
  \<open>k\<close>-th reading of \<^verbatim>\<open>Date.now()\<close>, and \<open>loaded_at\<close> is the ISO date computed once when
  the demo module is loaded.
\<close>

record env =
  net :: "nat \<Rightarrow> http_request \<Rightarrow> fetch_outcome"
  clock :: "nat \<Rightarrow> nat"
  loaded_at :: string

text \<open>
  The state of the client: the two fields of the \<^verbatim>\<open>ApiService\<close> singleton, the counter of
  the \<^verbatim>\<open>DemoApiService\<close> singleton it holds, the requests handed to \<^verbatim>\<open>fetch\<close> so far and
  the number of clock readings so far. \<open>responseIndex\<close> is a JavaScript number that is only
  ever incremented from 0; it is exact below \<open>2 ^ 53\<close>, which no run reaches.
\<close>

record sys =
  baseUrl :: string
  isDemoMode :: bool
  responseIndex :: nat
  calls :: "http_request list"
  clock_reads :: nat

definition fetch :: "env \<Rightarrow> sys \<Rightarrow> http_request \<Rightarrow> fetch_outcome \<times> sys" where
  "fetch E s rq = (net E (length (calls s)) rq, s\<lparr>calls := calls s @ [rq]\<rparr>)"

definition date_now :: "env \<Rightarrow> sys \<Rightarrow> nat \<times> sys" where
  "date_now E s = (clock E (clock_reads s), s\<lparr>clock_reads := Suc (clock_reads s)\<rparr>)"

section \<open>Transport: \<^verbatim>\<open>ApiService.request\<close> and the reachability probe\<close>

definition setBaseUrl :: "sys \<Rightarrow> string \<Rightarrow> sys" where
  "setBaseUrl s url = s\<lparr>baseUrl := url\<rparr>"

definition checkBackendAvailable :: "env \<Rightarrow> sys \<Rightarrow> bool \<times> sys" where
  "checkBackendAvailable E s =
     (case fetch E s \<lparr>req_url = baseUrl s @ ''/health/'', req_method = Some ''GET'',
                       req_headers = [], req_body = None, req_timeout = Some 3000\<rparr> of
        (FetchRejects m, s') \<Rightarrow> (False, s')
      | (FetchResolves r, s') \<Rightarrow> (ok r, s'))"

text \<open>
  The value thrown by \<^verbatim>\<open>throw new ApiError(message, status, code)\<close>: the new ApiError, or
  the TypeError of \<^verbatim>\<open>super(message)\<close> when the message has no string conversion. An
  \<^verbatim>\<open>undefined\<close> message gives the empty message.
\<close>

definition throw_new_ApiError :: "json option \<Rightarrow> nat \<Rightarrow> json option \<Rightarrow> js_error" where
  "throw_new_ApiError message status code =
     (case message of
        None \<Rightarrow> ApiError [] status code
      | Some v \<Rightarrow> (case to_string v of Inl e \<Rightarrow> e | Inr m \<Rightarrow> ApiError m status code))"

record req_options =
  opt_method :: "string option"
  opt_body :: "req_body option"
  opt_headers :: "(string \<times> string) list option"
  opt_stream :: bool

definition no_options :: req_options where
  "no_options = \<lparr>opt_method = None, opt_body = None, opt_headers = None, opt_stream = False\<rparr>"

text \<open>What \<^verbatim>\<open>request\<close> returns: the decoded body, or the raw response when streaming.\<close>

datatype req_result = Parsed json | Raw response

text \<open>
  The \<^verbatim>\<open>try\<close> block of \<^verbatim>\<open>request\<close>, from the outcome of \<^verbatim>\<open>fetch\<close> on; \<open>Inl\<close> is the
  exception that reaches the \<^verbatim>\<open>catch\<close> block. On a response that is not ok the body is
  decoded, \<^verbatim>\<open>{}\<close> standing in when decoding rejects.
\<close>

definition request_try :: "fetch_outcome \<Rightarrow> bool \<Rightarrow> js_error + req_result" where
  "request_try out stream =
     (case out of
        FetchRejects m \<Rightarrow> Inl (NativeError m)
      | FetchResolves r \<Rightarrow>
          if \<not> ok r then
            (let error = (case resp_json r of Inl m \<Rightarrow> JObj [] | Inr j \<Rightarrow> j) in
             bind_err (get_prop error ''message'') (\<lambda>msg.
             bind_err (get_prop error ''code'') (\<lambda>code.
               Inl (throw_new_ApiError
                      (if truthy msg then msg
                       else Some (JStr (''HTTP '' @ show_nat (resp_status r))))
                      (resp_status r) code))))
          else if stream then Inr (Raw r)
          else (case resp_json r of
                  Inl m \<Rightarrow> Inl (NativeError m)
                | Inr j \<Rightarrow> Inr (Parsed j)))"

text \<open>The \<^verbatim>\<open>catch\<close> block of \<^verbatim>\<open>request\<close>: the exception it throws in turn.\<close>

definition request_catch :: "js_error \<Rightarrow> js_error" where
  "request_catch error =
     (if is_ApiError error then error
      else throw_new_ApiError
             (Some (JStr (if err_message error = [] then ''Network error'' else err_message error)))
             0 (Some (JStr ''NETWORK_ERROR'')))"

text \<open>
  What \<^verbatim>\<open>request\<close> hands to \<^verbatim>\<open>fetch\<close>: the url and the \<^verbatim>\<open>config\<close> object. The spread of
  \<^verbatim>\<open>options\<close> comes last, so \<^verbatim>\<open>headers\<close> given by the caller replace the default ones.
\<close>

definition request_config :: "sys \<Rightarrow> string \<Rightarrow> req_options \<Rightarrow> http_request" where
  "request_config s endpoint options =
     \<lparr>req_url = baseUrl s @ endpoint,
      req_method = opt_method options,
      req_headers = (case opt_headers options of
                       None \<Rightarrow> [(''Content-Type'', ''application/json'')]
                     | Some h \<Rightarrow> h),
      req_body = opt_body options,
      req_timeout = None\<rparr>"

definition request :: "env \<Rightarrow> sys \<Rightarrow> string \<Rightarrow> req_options \<Rightarrow> (js_error + req_result) \<times> sys" where
  "request E s endpoint options =
     (let (out, s') = fetch E s (request_config s endpoint options)
      in case request_try out (opt_stream options) of
           Inl error \<Rightarrow> (Inl (request_catch error), s')
         | Inr v \<Rightarrow> (Inr v, s'))"

section \<open>The Simulated Responder: \<^verbatim>\<open>DemoApiService\<close>\<close>

definition DEMO_RESPONSES :: "string list" where
  "DEMO_RESPONSES =
    [''Hello! I'' @ [CHR 0x27] @
     ''m Allma AI, a RAG-powered assistant. This is a demo mode showcasing the application'' @
     [CHR 0x27] @
     ''s capabilities. In production, I connect to local LLMs via Ollama for private, offline AI conversations.'',
     ''Great question! This application uses **Retrieval-Augmented Generation (RAG)** to enhance AI responses with your own documents. Key features:'' @
     [CHR 0x0A, CHR 0x0A] @ ''- '' @ [CHR 0xF0, CHR 0x9F, CHR 0x94, CHR 0x92] @
     '' **Privacy-first**: All processing happens locally'' @ [CHR 0x0A] @ ''- '' @
     [CHR 0xF0, CHR 0x9F, CHR 0x93, CHR 0x9A] @
     '' **Document ingestion**: Upload PDFs, docs, and text files'' @ [CHR 0x0A] @ ''- '' @
     [CHR 0xF0, CHR 0x9F, CHR 0xA7, CHR 0xA0] @
     '' **Vector search**: ChromaDB for semantic retrieval'' @ [CHR 0x0A] @ ''- '' @
     [CHR 0xE2, CHR 0x9A, CHR 0xA1] @ '' **Fast inference**: Ollama with optimized models'',
     ''The tech stack includes:'' @ [CHR 0x0A, CHR 0x0A] @ ''**Frontend:**'' @ [CHR 0x0A] @
     ''- React 18 + Vite'' @ [CHR 0x0A] @ ''- TailwindCSS'' @ [CHR 0x0A] @
     ''- Responsive design'' @ [CHR 0x0A, CHR 0x0A] @ ''**Backend:**'' @ [CHR 0x0A] @
     ''- FastAPI (Python)'' @ [CHR 0x0A] @ ''- ChromaDB vector store'' @ [CHR 0x0A] @
     ''- Ollama LLM integration'' @ [CHR 0x0A, CHR 0x0A] @ ''**Deployment:**'' @ [CHR 0x0A] @
     ''- Docker & Kubernetes ready'' @ [CHR 0x0A] @ ''- CI/CD with GitHub Actions'',
     ''I can help with various tasks:'' @ [CHR 0x0A, CHR 0x0A] @
     ''1. **Code assistance** - Explain, debug, and generate code'' @ [CHR 0x0A] @
     ''2. **Document Q&A** - Answer questions about uploaded documents'' @ [CHR 0x0A] @
     ''3. **Research** - Summarize and analyze information'' @ [CHR 0x0A] @
     ''4. **Writing** - Draft emails, reports, and content'' @ [CHR 0x0A, CHR 0x0A] @
     ''What would you like to explore?'',
     ''This demo showcases the UI and interaction patterns. In the full version:'' @
     [CHR 0x0A, CHR 0x0A] @ ''- Connect to **Ollama** for local LLM inference'' @ [CHR 0x0A] @
     ''- Use **Groq API** for cloud-based fast inference'' @ [CHR 0x0A] @
     ''- Ingest documents for **RAG-powered** responses'' @ [CHR 0x0A] @
     ''- Maintain **conversation history** with context'']"

definition DEMO_MODELS :: "env \<Rightarrow> json list" where
  "DEMO_MODELS E =
    [JObj [(''name'', JStr ''deepseek-r1:latest''), (''size'', JNum ''5200000000''),
           (''modified_at'', JStr (loaded_at E))],
     JObj [(''name'', JStr ''gemma2:9b''), (''size'', JNum ''5400000000''),
           (''modified_at'', JStr (loaded_at E))],
     JObj [(''name'', JStr ''llama3.2:latest''), (''size'', JNum ''4700000000''),
           (''modified_at'', JStr (loaded_at E))],
     JObj [(''name'', JStr ''nomic-embed-text:latest''), (''size'', JNum ''274000000''),
           (''modified_at'', JStr (loaded_at E))]]"

definition DEMO_DOCUMENTS :: "env \<Rightarrow> json list" where
  "DEMO_DOCUMENTS E =
    [JObj [(''id'', JStr ''1''), (''filename'', JStr ''project_documentation.pdf''),
           (''chunk_count'', JNum ''45''), (''created_at'', JStr (loaded_at E))],
     JObj [(''id'', JStr ''2''), (''filename'', JStr ''api_reference.md''),
           (''chunk_count'', JNum ''23''), (''created_at'', JStr (loaded_at E))],
     JObj [(''id'', JStr ''3''), (''filename'', JStr ''user_guide.docx''),
           (''chunk_count'', JNum ''67''), (''created_at'', JStr (loaded_at E))]]"

text \<open>
  The options object of a chat call. A field is \<open>None\<close> when the caller leaves it
  \<^verbatim>\<open>undefined\<close>; of the three callbacks only their presence is recorded.
\<close>

record chat_options =
  conversationId :: "string option"
  useRag :: "bool option"
  model :: "string option"
  stream :: "bool option"
  onToken :: bool
  onComplete :: bool
  onError :: bool

text \<open>
  The object a chat call resolves with. The facade copies the fields of the backend's
  answer as they are, so each may be \<^verbatim>\<open>undefined\<close>; \<open>msg_sources\<close> always has a value.
\<close>

record message =
  msg_id :: "json option"
  msg_conversationId :: "json option"
  msg_content :: "json option"
  msg_model :: "json option"
  msg_sources :: json
  msg_usage :: "json option"
  msg_isDemo :: bool

text \<open>
  \<^verbatim>\<open>DemoApiService.sendMessage\<close>. The artificial delay changes nothing that is returned and
  is left out; calls are taken one after the other, each awaited before the next.
\<close>

definition demo_sendMessage :: "env \<Rightarrow> sys \<Rightarrow> string \<Rightarrow> chat_options \<Rightarrow> message \<times> sys" where
  "demo_sendMessage E s message options =
     (let response = DEMO_RESPONSES ! (responseIndex s mod length DEMO_RESPONSES);
          s1 = s\<lparr>responseIndex := responseIndex s + 1\<rparr>;
          (now, s2) = date_now E s1
      in (\<lparr>msg_id = Some (JStr (''demo-'' @ show_nat now)),
           msg_conversationId =
             Some (JStr (case conversationId options of
                           None \<Rightarrow> ''demo-conversation''
                         | Some c \<Rightarrow> if c = [] then ''demo-conversation'' else c)),
           msg_content = Some (JStr response),
           msg_model = Some (JStr ''demo-mode''),
           msg_sources =
             JArr (if useRag options = Some True
                   then [JObj [(''document'', JStr ''demo_doc.pdf''), (''relevance'', JNum ''0.95''),
                               (''snippet'', JStr ''Sample relevant content...'')]]
                   else []),
           msg_usage = Some (JObj [(''prompt_tokens'', JNum ''50''),
                                   (''completion_tokens'', JNum ''150'')]),
           msg_isDemo = True\<rparr>, s2))"

text \<open>A sequence of simulated chat calls, each awaited before the next is made.\<close>

fun demo_chat_run :: "env \<Rightarrow> sys \<Rightarrow> (string \<times> chat_options) list \<Rightarrow> message list \<times> sys" where
  "demo_chat_run E s [] = ([], s)"
| "demo_chat_run E s ((message, options) # rest) =
     (let (m, s1) = demo_sendMessage E s message options;
          (ms, s2) = demo_chat_run E s1 rest
      in (m # ms, s2))"

definition demo_getModels :: "env \<Rightarrow> json" where
  "demo_getModels E =
     JObj [(''models'', JArr (DEMO_MODELS E)), (''current_model'', JStr ''deepseek-r1:latest'')]"

definition demo_getDocuments :: "env \<Rightarrow> json" where
  "demo_getDocuments E =
     JObj [(''documents'', JArr (DEMO_DOCUMENTS E)),
           (''total'', JNum (show_nat (length (DEMO_DOCUMENTS E))))]"

definition demo_checkHealth :: json where
  "demo_checkHealth =
     JObj [(''status'', JStr ''demo''), (''version'', JStr ''2.0.0-demo''),
           (''services'', JArr [JObj [(''name'', JStr ''frontend''), (''status'', JStr ''healthy'')],
                                JObj [(''name'', JStr ''demo-mode''), (''status'', JStr ''active'')]]),
           (''message'', JStr ''Running in demo mode - connect backend for full functionality'')]"

section \<open>The Client Facade: \<^verbatim>\<open>ApiService\<close>\<close>

text \<open>The state after \<^verbatim>\<open>new ApiService(baseUrl)\<close>, with a fresh demo service.\<close>

definition new_ApiService :: "string \<Rightarrow> sys" where
  "new_ApiService url =
     \<lparr>baseUrl = url, isDemoMode = False, responseIndex = 0, calls = [], clock_reads = 0\<rparr>"

text \<open>
  Property read from what a facade call resolved with. Of the names the client reads,
  only \<^verbatim>\<open>status\<close> is a property of a raw \<^verbatim>\<open>Response\<close>.
\<close>

fun rr_prop :: "req_result \<Rightarrow> string \<Rightarrow> js_error + json option" where
  "rr_prop (Parsed j) name = get_prop j name"
| "rr_prop (Raw r) name =
     Inr (if name = ''status'' then Some (JNum (show_nat (resp_status r))) else None)"

text \<open>\<^verbatim>\<open>a || b\<close>, for a right-hand side that is defined.\<close>

definition or_else :: "json option \<Rightarrow> json \<Rightarrow> json" where
  "or_else a b = (case a of None \<Rightarrow> b | Some v \<Rightarrow> if truthy (Some v) then v else b)"

definition chat_body :: "string \<Rightarrow> chat_options \<Rightarrow> bool \<Rightarrow> req_body" where
  "chat_body message options strm =
     JsonBody (JObj
       ([(''message'', JStr message)] @
        (case conversationId options of None \<Rightarrow> [] | Some c \<Rightarrow> [(''conversation_id'', JStr c)]) @
        [(''use_rag'', JBool (case useRag options of None \<Rightarrow> True | Some b \<Rightarrow> b))] @
        (case model options of None \<Rightarrow> [] | Some m \<Rightarrow> [(''model'', JStr m)]) @
        [(''stream'', JBool strm)]))"

text \<open>The object literal built from the backend's answer; reading from \<^verbatim>\<open>null\<close> throws.\<close>

definition message_of_response :: "req_result \<Rightarrow> js_error + message" where
  "message_of_response response =
     bind_err (rr_prop response ''id'') (\<lambda>rid.
     bind_err (rr_prop response ''conversation_id'') (\<lambda>cid.
     bind_err (rr_prop response ''content'') (\<lambda>content.
     bind_err (rr_prop response ''model'') (\<lambda>mdl.
     bind_err (rr_prop response ''sources'') (\<lambda>sources.
     bind_err (rr_prop response ''usage'') (\<lambda>usage.
       Inr \<lparr>msg_id = rid, msg_conversationId = cid, msg_content = content, msg_model = mdl,
            msg_sources = or_else sources (JArr []),
            msg_usage = usage, msg_isDemo = False\<rparr>))))))"

text \<open>The request of \<^verbatim>\<open>sendMessage\<close>; \<^verbatim>\<open>stream\<close> defaults to false.\<close>

definition chat_request ::
  "env \<Rightarrow> sys \<Rightarrow> string \<Rightarrow> chat_options \<Rightarrow> (js_error + req_result) \<times> sys" where
  "chat_request E s message options =
     request E s ''/chat/''
       \<lparr>opt_method = Some ''POST'',
        opt_body = Some (chat_body message options
                          (case stream options of None \<Rightarrow> False | Some b \<Rightarrow> b)),
        opt_headers = None, opt_stream = False\<rparr>"

definition sendMessage :: "env \<Rightarrow> sys \<Rightarrow> string \<Rightarrow> chat_options \<Rightarrow> (js_error + message) \<times> sys" where
  "sendMessage E s message options =
     (if isDemoMode s then
        (let (m, s') = demo_sendMessage E (s\<lparr>isDemoMode := True\<rparr>) message options
         in (Inr m, s'))
      else
        (let (available, s1) = checkBackendAvailable E s in
         if \<not> available then
           (let (m, s') = demo_sendMessage E (s1\<lparr>isDemoMode := True\<rparr>) message options
            in (Inr m, s'))
         else
           (let (r, s2) = chat_request E s1 message options
            in case bind_err r message_of_response of
                 Inr m \<Rightarrow> (Inr m, s2)
               | Inl error \<Rightarrow>
                   (let (m, s') = demo_sendMessage E (s2\<lparr>isDemoMode := True\<rparr>) message options
                    in (Inr m, s')))))"

text \<open>The operations that only forward to \<^verbatim>\<open>request\<close>.\<close>

definition getConversation :: "env \<Rightarrow> sys \<Rightarrow> string \<Rightarrow> (js_error + req_result) \<times> sys" where
  "getConversation E s cid = request E s (''/chat/conversation/'' @ cid) no_options"

definition deleteConversation :: "env \<Rightarrow> sys \<Rightarrow> string \<Rightarrow> (js_error + req_result) \<times> sys" where
  "deleteConversation E s cid =
     request E s (''/chat/conversation/'' @ cid) (no_options\<lparr>opt_method := Some ''DELETE''\<rparr>)"

definition listConversations :: "env \<Rightarrow> sys \<Rightarrow> (js_error + req_result) \<times> sys" where
  "listConversations E s = request E s ''/chat/conversations'' no_options"

definition ingestText ::
  "env \<Rightarrow> sys \<Rightarrow> string \<Rightarrow> string option \<Rightarrow> json option \<Rightarrow> (js_error + req_result) \<times> sys" where
  "ingestText E s txt source metadata =
     request E s ''/rag/ingest''
       \<lparr>opt_method = Some ''POST'',
        opt_body = Some (JsonBody (JObj
          [(''text'', JStr txt),
           (''source'', JStr (case source of None \<Rightarrow> ''direct_input'' | Some src \<Rightarrow> src)),
           (''metadata'', (case metadata of None \<Rightarrow> JObj [] | Some md \<Rightarrow> md))])),
        opt_headers = None, opt_stream = False\<rparr>"

definition ingestFile ::
  "env \<Rightarrow> sys \<Rightarrow> string \<Rightarrow> json option \<Rightarrow> (js_error + req_result) \<times> sys" where
  "ingestFile E s filePath metadata =
     request E s ''/rag/ingest''
       \<lparr>opt_method = Some ''POST'',
        opt_body = Some (JsonBody (JObj
          [(''file_path'', JStr filePath),
           (''metadata'', (case metadata of None \<Rightarrow> JObj [] | Some md \<Rightarrow> md))])),
        opt_headers = None, opt_stream = False\<rparr>"

text \<open>
  \<^verbatim>\<open>uploadDocument(file, source = null)\<close>: the source is appended only when truthy, and the
  empty \<^verbatim>\<open>headers\<close> given here replace the default ones.
\<close>

definition uploadDocument ::
  "env \<Rightarrow> sys \<Rightarrow> js_file \<Rightarrow> string option \<Rightarrow> (js_error + req_result) \<times> sys" where
  "uploadDocument E s file source =
     request E s ''/rag/ingest/upload''
       \<lparr>opt_method = Some ''POST'',
        opt_body = Some (FormBody file
                          (case source of None \<Rightarrow> None
                           | Some src \<Rightarrow> if src = [] then None else Some src)),
        opt_headers = Some [], opt_stream = False\<rparr>"

text \<open>The options of a search; the two numbers are kept as their decimal renderings.\<close>

record search_options =
  topK :: "string option"
  threshold :: "string option"
  filterSource :: "string option"

definition search ::
  "env \<Rightarrow> sys \<Rightarrow> string \<Rightarrow> search_options \<Rightarrow> (js_error + req_result) \<times> sys" where
  "search E s query options =
     request E s ''/rag/search''
       \<lparr>opt_method = Some ''POST'',
        opt_body = Some (JsonBody (JObj
          ([(''query'', JStr query),
            (''top_k'', JNum (case topK options of None \<Rightarrow> ''5'' | Some k \<Rightarrow> k))] @
           (case threshold options of None \<Rightarrow> [] | Some t \<Rightarrow> [(''threshold'', JNum t)]) @
           (case filterSource options of None \<Rightarrow> [] | Some f \<Rightarrow> [(''filter_source'', JStr f)])))),
        opt_headers = None, opt_stream = False\<rparr>"

definition deleteDocument :: "env \<Rightarrow> sys \<Rightarrow> string \<Rightarrow> (js_error + req_result) \<times> sys" where
  "deleteDocument E s documentId =
     request E s (''/rag/documents/'' @ documentId) (no_options\<lparr>opt_method := Some ''DELETE''\<rparr>)"

definition getRAGStats :: "env \<Rightarrow> sys \<Rightarrow> (js_error + req_result) \<times> sys" where
  "getRAGStats E s = request E s ''/rag/stats'' no_options"

definition switchModel :: "env \<Rightarrow> sys \<Rightarrow> string \<Rightarrow> (js_error + req_result) \<times> sys" where
  "switchModel E s modelName =
     request E s ''/models/switch''
       \<lparr>opt_method = Some ''POST'',
        opt_body = Some (JsonBody (JObj [(''model'', JStr modelName)])),
        opt_headers = None, opt_stream = False\<rparr>"

definition pullModel :: "env \<Rightarrow> sys \<Rightarrow> string \<Rightarrow> (js_error + req_result) \<times> sys" where
  "pullModel E s modelName =
     request E s ''/models/pull''
       \<lparr>opt_method = Some ''POST'',
        opt_body = Some (JsonBody (JObj [(''model'', JStr modelName)])),
        opt_headers = None, opt_stream = False\<rparr>"

definition liveness :: "env \<Rightarrow> sys \<Rightarrow> (js_error + req_result) \<times> sys" where
  "liveness E s = request E s ''/health/live'' no_options"

definition readiness :: "env \<Rightarrow> sys \<Rightarrow> (js_error + req_result) \<times> sys" where
  "readiness E s = request E s ''/health/ready'' no_options"

definition getConfig :: "env \<Rightarrow> sys \<Rightarrow> (js_error + req_result) \<times> sys" where
  "getConfig E s = request E s ''/health/config'' no_options"

text \<open>
  The operations with a fallback: the Simulated Responder answers when the flag is set,
  and when the request throws, which sets the flag.
\<close>

definition getDocuments :: "env \<Rightarrow> sys \<Rightarrow> (js_error + req_result) \<times> sys" where
  "getDocuments E s =
     (if isDemoMode s then (Inr (Parsed (demo_getDocuments E)), s)
      else (case request E s ''/rag/documents'' no_options of
              (Inr v, s') \<Rightarrow> (Inr v, s')
            | (Inl error, s') \<Rightarrow> (Inr (Parsed (demo_getDocuments E)), s'\<lparr>isDemoMode := True\<rparr>)))"

definition listModels :: "env \<Rightarrow> sys \<Rightarrow> (js_error + req_result) \<times> sys" where
  "listModels E s =
     (if isDemoMode s then (Inr (Parsed (demo_getModels E)), s)
      else (case request E s ''/models/'' no_options of
              (Inr v, s') \<Rightarrow> (Inr v, s')
            | (Inl error, s') \<Rightarrow> (Inr (Parsed (demo_getModels E)), s'\<lparr>isDemoMode := True\<rparr>)))"

definition healthCheck :: "env \<Rightarrow> sys \<Rightarrow> (js_error + req_result) \<times> sys" where
  "healthCheck E s =
     (if isDemoMode s then (Inr (Parsed demo_checkHealth), s)
      else (case request E s ''/health/'' no_options of
              (Inr v, s') \<Rightarrow> (Inr v, s')
            | (Inl error, s') \<Rightarrow> (Inr (Parsed demo_checkHealth), s'\<lparr>isDemoMode := True\<rparr>)))"

subsection \<open>Streaming: \<^verbatim>\<open>ApiService.streamMessage\<close>\<close>

text \<open>
  The calls made to the three callbacks, in order. A callback that is not supplied is not
  called (\<^verbatim>\<open>onToken?.(data)\<close>); the callbacks themselves are taken not to throw.
\<close>

datatype event = Token string | Complete string | Error js_error

text \<open>\<^verbatim>\<open>chunk.split('\n')\<close>.\<close>

fun split_on :: "char \<Rightarrow> string \<Rightarrow> string list" where
  "split_on sep [] = [] # []"
| "split_on sep (c # cs) =
     (if c = sep then [] # split_on sep cs
      else (case split_on sep cs of
              [] \<Rightarrow> [c] # []
            | l # ls \<Rightarrow> (c # l) # ls))"

text \<open>
  The \<^verbatim>\<open>for\<close> loop over the lines of one chunk: \<open>None\<close> when the terminator was met and
  the function has returned, otherwise the content accumulated so far.
\<close>

fun process_lines ::
  "string list \<Rightarrow> string \<Rightarrow> chat_options \<Rightarrow> event list \<Rightarrow> string option \<times> event list" where
  "process_lines [] fullContent options ev = (Some fullContent, ev)"
| "process_lines (line # lines) fullContent options ev =
     (if take 6 line = ''data: '' then
        (let data = drop 6 line in
         if data = ''[DONE]''
         then (None, ev @ (if onComplete options then [Complete fullContent] else []))
         else process_lines lines (fullContent @ data) options
                (ev @ (if onToken options then [Token data] else [])))
      else process_lines lines fullContent options ev)"

text \<open>The \<^verbatim>\<open>while (true)\<close> loop over the reads of the body.\<close>

fun read_loop ::
  "read_step list \<Rightarrow> string \<Rightarrow> chat_options \<Rightarrow> event list \<Rightarrow> (js_error + unit) \<times> event list" where
  "read_loop [] fullContent options ev =
     (Inr (), ev @ (if onComplete options then [Complete fullContent] else []))"
| "read_loop (ReadFails m # rest) fullContent options ev = (Inl (NativeError m), ev)"
| "read_loop (Chunk c # rest) fullContent options ev =
     (case process_lines (split_on (CHR 0x0A) c) fullContent options ev of
        (None, ev') \<Rightarrow> (Inr (), ev')
      | (Some fullContent', ev') \<Rightarrow> read_loop rest fullContent' options ev')"

text \<open>\<^verbatim>\<open>response.body.getReader()\<close>: the reads the reader will deliver.\<close>

fun get_reader :: "req_result \<Rightarrow> js_error + read_step list" where
  "get_reader (Raw r) =
     (case resp_body r of
        None \<Rightarrow> Inl (NativeError (''Cannot read properties of null (reading '' @ [CHR 0x27] @
                                   ''getReader'' @ [CHR 0x27] @ '')''))
      | Some steps \<Rightarrow> Inr steps)"
| "get_reader (Parsed j) =
     bind_err (get_prop j ''body'') (\<lambda>b.
       Inl (NativeError (''Cannot read properties of undefined (reading '' @ [CHR 0x27] @
                         ''getReader'' @ [CHR 0x27] @ '')'')))"

definition streamMessage ::
  "env \<Rightarrow> sys \<Rightarrow> string \<Rightarrow> chat_options \<Rightarrow> (js_error + unit) \<times> event list \<times> sys" where
  "streamMessage E s message options =
     (let (r, s') = request E s ''/chat/stream''
                      \<lparr>opt_method = Some ''POST'',
                       opt_body = Some (chat_body message options True),
                       opt_headers = None, opt_stream = True\<rparr>
      in case bind_err r get_reader of
           Inl error \<Rightarrow> (Inl error, (if onError options then [Error error] else []), s')
         | Inr steps \<Rightarrow>
             (case read_loop steps [] options [] of
                (Inl error, ev) \<Rightarrow>
                  (Inl error, ev @ (if onError options then [Error error] else []), s')
              | (Inr u, ev) \<Rightarrow> (Inr u, ev, s')))"



section \<open>Session state controllers (hooks)\<close>

subsection \<open>\<^verbatim>\<open>useHealthCheck\<close>\<close>

record health_state =
  h_status :: "json option"
  h_lastCheck :: "nat option"
  h_error :: "string option"

definition useHealthCheck_init :: health_state where
  "useHealthCheck_init = \<lparr>h_status = Some (JStr ''unknown''), h_lastCheck = None, h_error = None\<rparr>"

definition checkHealth :: "env \<Rightarrow> sys \<Rightarrow> health_state \<Rightarrow> health_state \<times> sys" where
  "checkHealth E s h =
     (let (r, s1) = healthCheck E s;
          h1 = (case bind_err r (\<lambda>response. rr_prop response ''status'') of
                  Inr st \<Rightarrow> h\<lparr>h_status := st, h_error := None\<rparr>
                | Inl err \<Rightarrow> h\<lparr>h_status := Some (JStr ''unhealthy''),
                                h_error := Some (err_message err)\<rparr>);
          (now, s2) = date_now E s1
      in (h1\<lparr>h_lastCheck := Some now\<rparr>, s2))"

subsection \<open>\<^verbatim>\<open>useDocuments\<close>\<close>

record doc_record =
  doc_id :: string
  doc_name :: string
  doc_size :: nat
  doc_chunksCreated :: "json option"
  doc_uploadedAt :: nat
  doc_status :: string

record documents_state =
  documents :: "doc_record list"
  isUploading :: bool
  uploadProgress :: nat
  doc_error :: "js_error option"

definition useDocuments_init :: documents_state where
  "useDocuments_init = \<lparr>documents = [], isUploading = False, uploadProgress = 0, doc_error = None\<rparr>"

text \<open>
  The hook's \<^verbatim>\<open>uploadDocument\<close>. The state setters use the functional form
  (\<^verbatim>\<open>prev => [...prev, newDoc]\<close>), so updates accumulate as in state passing.
\<close>

definition useDocuments_uploadDocument ::
  "env \<Rightarrow> sys \<Rightarrow> documents_state \<Rightarrow> js_file \<Rightarrow> (js_error + req_result) \<times> documents_state \<times> sys" where
  "useDocuments_uploadDocument E s d file =
     (let d1 = d\<lparr>isUploading := True, uploadProgress := 0, doc_error := None\<rparr>;
          (r, s1) = uploadDocument E s file None
      in case r of
           Inl err \<Rightarrow> (Inl err, d1\<lparr>doc_error := Some err, isUploading := False\<rparr>, s1)
         | Inr response \<Rightarrow>
             (let (t1, s2) = date_now E s1 in
              case rr_prop response ''chunks_created'' of
                Inl err \<Rightarrow> (Inl err, d1\<lparr>doc_error := Some err, isUploading := False\<rparr>, s2)
              | Inr chunks \<Rightarrow>
                  (let (t2, s3) = date_now E s2;
                       newDoc = \<lparr>doc_id = show_nat t1, doc_name = file_name file,
                                 doc_size = file_size file, doc_chunksCreated = chunks,
                                 doc_uploadedAt = t2, doc_status = ''indexed''\<rparr>
                   in (Inr response,
                       d1\<lparr>documents := documents d1 @ [newDoc], uploadProgress := 100,
                          isUploading := False\<rparr>, s3))))"

record upload_result =
  ur_file :: string
  ur_success :: bool
  ur_result :: "req_result option"
  ur_error :: "js_error option"

text \<open>The \<^verbatim>\<open>for\<close> loop of \<^verbatim>\<open>uploadMultiple\<close>, with the results pushed so far.\<close>

fun upload_loop ::
  "env \<Rightarrow> sys \<Rightarrow> documents_state \<Rightarrow> js_file list \<Rightarrow> upload_result list
     \<Rightarrow> upload_result list \<times> documents_state \<times> sys" where
  "upload_loop E s d [] results = (results, d, s)"
| "upload_loop E s d (file # files) results =
     (case useDocuments_uploadDocument E s d file of
        (Inr result, d', s') \<Rightarrow>
          upload_loop E s' d' files
            (results @ [\<lparr>ur_file = file_name file, ur_success = True,
                         ur_result = Some result, ur_error = None\<rparr>])
      | (Inl err, d', s') \<Rightarrow>
          upload_loop E s' d' files
            (results @ [\<lparr>ur_file = file_name file, ur_success = False,
                         ur_result = None, ur_error = Some err\<rparr>]))"

definition uploadMultiple ::
  "env \<Rightarrow> sys \<Rightarrow> documents_state \<Rightarrow> js_file list \<Rightarrow> upload_result list \<times> documents_state \<times> sys" where
  "uploadMultiple E s d files = upload_loop E s d files []"

section \<open>Sequences of facade operations\<close>

text \<open>Every operation of \<^verbatim>\<open>ApiService\<close>, and the state it leaves once it has settled.\<close>

datatype facade_op =
    SetBaseUrl string
  | CheckBackendAvailable
  | SendMessage string chat_options
  | StreamMessage string chat_options
  | GetConversation string
  | DeleteConversation string
  | ListConversations
  | IngestText string "string option" "json option"
  | IngestFile string "json option"
  | UploadDocument js_file "string option"
  | Search string search_options
  | GetDocuments
  | DeleteDocument string
  | GetRAGStats
  | ListModels
  | SwitchModel string
  | PullModel string
  | HealthCheck
  | Liveness
  | Readiness
  | GetConfig

fun exec :: "env \<Rightarrow> sys \<Rightarrow> facade_op \<Rightarrow> sys" where
  "exec E s (SetBaseUrl url) = setBaseUrl s url"
| "exec E s CheckBackendAvailable = snd (checkBackendAvailable E s)"
| "exec E s (SendMessage message options) = snd (sendMessage E s message options)"
| "exec E s (StreamMessage message options) = snd (snd (streamMessage E s message options))"
| "exec E s (GetConversation cid) = snd (getConversation E s cid)"
| "exec E s (DeleteConversation cid) = snd (deleteConversation E s cid)"
| "exec E s ListConversations = snd (listConversations E s)"
| "exec E s (IngestText txt source metadata) = snd (ingestText E s txt source metadata)"
| "exec E s (IngestFile filePath metadata) = snd (ingestFile E s filePath metadata)"
| "exec E s (UploadDocument file source) = snd (uploadDocument E s file source)"
| "exec E s (Search query options) = snd (search E s query options)"
| "exec E s GetDocuments = snd (getDocuments E s)"
| "exec E s (DeleteDocument documentId) = snd (deleteDocument E s documentId)"
| "exec E s GetRAGStats = snd (getRAGStats E s)"
| "exec E s ListModels = snd (listModels E s)"
| "exec E s (SwitchModel modelName) = snd (switchModel E s modelName)"
| "exec E s (PullModel modelName) = snd (pullModel E s modelName)"
| "exec E s HealthCheck = snd (healthCheck E s)"
| "exec E s Liveness = snd (liveness E s)"
| "exec E s Readiness = snd (readiness E s)"
| "exec E s GetConfig = snd (getConfig E s)"

fun run_ops :: "env \<Rightarrow> sys \<Rightarrow> facade_op list \<Rightarrow> sys" where
  "run_ops E s [] = s"
| "run_ops E s (op # ops) = run_ops E (exec E s op) ops"

section \<open>What the network does to a batch of uploads\<close>

text \<open>
  The request that the controller's upload of a file hands to \<^verbatim>\<open>fetch\<close>, and the outcomes
  that let the upload go through: an ok response whose body decodes to a value other than
  \<^verbatim>\<open>null\<close>. \<open>upload_flags E url k files\<close> lists, file by file, whether the network lets the
  upload through when the first of them is the \<open>k\<close>-th fetch.
\<close>

definition upload_request :: "string \<Rightarrow> js_file \<Rightarrow> http_request" where
  "upload_request url file =
     \<lparr>req_url = url @ ''/rag/ingest/upload'', req_method = Some ''POST'', req_headers = [],
      req_body = Some (FormBody file None), req_timeout = None\<rparr>"

definition upload_succeeds :: "fetch_outcome \<Rightarrow> bool" where
  "upload_succeeds out =
     (case out of
        FetchRejects m \<Rightarrow> False
      | FetchResolves r \<Rightarrow>
          ok r \<and> (case resp_json r of Inl m \<Rightarrow> False | Inr j \<Rightarrow> j \<noteq> JNull))"

fun upload_flags :: "env \<Rightarrow> string \<Rightarrow> nat \<Rightarrow> js_file list \<Rightarrow> bool list" where
  "upload_flags E url k [] = []"
| "upload_flags E url k (file # files) =
     upload_succeeds (net E k (upload_request url file)) # upload_flags E url (Suc k) files"

section \<open>Concrete environments for the examples\<close>

text \<open>An environment whose network gives the same outcome to every fetch.\<close>

definition env_always :: "fetch_outcome \<Rightarrow> env" where
  "env_always out =
     \<lparr>net = (\<lambda>k rq. out), clock = (\<lambda>k. 1700000000000 + k),
      loaded_at = ''2026-01-01T00:00:00.000Z''\<rparr>"

text \<open>The options object \<^verbatim>\<open>{}\<close>.\<close>

definition no_chat_options :: chat_options where
  "no_chat_options =
     \<lparr>conversationId = None, useRag = None, model = None, stream = None,
      onToken = False, onComplete = False, onError = False\<rparr>"

definition json_response :: "nat \<Rightarrow> json \<Rightarrow> response" where
  "json_response st j = \<lparr>resp_status = st, resp_json = Inr j, resp_body = Some []\<rparr>"

definition six_calls :: "(string \<times> chat_options) list" where
  "six_calls = replicate 6 (''hi'', no_chat_options)"

definition dead_env :: env where
  "dead_env = env_always (FetchRejects ''Failed to fetch'')"

definition empty_answer_env :: env where
  "empty_answer_env = env_always (FetchResolves (json_response 200 (JObj [(''content'', JStr [])])))"

definition rag_options :: "bool \<Rightarrow> chat_options" where
  "rag_options b = no_chat_options\<lparr>useRag := Some b\<rparr>"

definition one_hit :: json where
  "one_hit = JObj [(''document'', JStr ''notes.txt''), (''relevance'', JNum ''0.8''),
                   (''snippet'', JStr ''...'')]"

definition hit_env :: env where
  "hit_env = env_always (FetchResolves (json_response 200
               (JObj [(''content'', JStr ''ok''), (''sources'', JArr [one_hit])])))"

definition latched_sys :: sys where
  "latched_sys = snd (listModels dead_env (new_ApiService ''http://localhost:8000''))"




text \<open>A backend that accepts every upload but the second fetch, which is refused.\<close>

definition second_fetch_fails :: env where
  "second_fetch_fails =
     \<lparr>net = (\<lambda>k rq. if k = 1 then FetchRejects ''Failed to fetch''
                     else FetchResolves (json_response 200 (JObj [(''chunks_created'', JNum ''3'')]))),
      clock = (\<lambda>k. 1700000000000 + k), loaded_at = ''2026-01-01T00:00:00.000Z''\<rparr>"

definition three_files :: "js_file list" where
  "three_files = [\<lparr>file_name = ''a.pdf'', file_size = 10\<rparr>, \<lparr>file_name = ''b.pdf'', file_size = 20\<rparr>,
                  \<lparr>file_name = ''c.pdf'', file_size = 30\<rparr>]"

section \<open>Theorems\<close>

lemma show_nat_examples: "show_nat 0 = ''0'' \<and> show_nat 7 = ''7'' \<and> show_nat 500 = ''500''"
  by (simp add: show_nat.simps digit_char_def)

subsection \<open>Transport\<close>

lemma request_catch_is_ApiError: "is_ApiError (request_catch e)"
  by (simp add: request_catch_def throw_new_ApiError_def)

text \<open>
  Claim C10. Every exception that \<^verbatim>\<open>request\<close> throws is an ApiError: whatever is thrown
  inside its \<^verbatim>\<open>try\<close> block (a rejected fetch, a body that does not decode, a response
  that is not ok, a TypeError raised while the error is being built) either is an ApiError
  already or is wrapped into one by the \<^verbatim>\<open>catch\<close> block.
\<close>

theorem request_throws_only_ApiError:
  "fst (request E s endpoint options) = Inl e \<Longrightarrow> is_ApiError e"
  by (auto simp: request_def request_catch_is_ApiError split: prod.splits sum.splits)

theorem request_throws_only_ApiError_witness:
  "fst (request (env_always (FetchRejects ''Failed to fetch''))
          (new_ApiService ''http://localhost:8000'') ''/chat/'' no_options)
     = Inl (ApiError ''Failed to fetch'' 0 (Some (JStr ''NETWORK_ERROR'')))
   \<and> is_ApiError (ApiError ''Failed to fetch'' 0 (Some (JStr ''NETWORK_ERROR'')))"
proof -
  have h: "fst (request (env_always (FetchRejects ''Failed to fetch''))
                  (new_ApiService ''http://localhost:8000'') ''/chat/'' no_options)
           = Inl (ApiError ''Failed to fetch'' 0 (Some (JStr ''NETWORK_ERROR'')))"
    by (simp add: request_def request_config_def fetch_def env_always_def request_try_def
        request_catch_def throw_new_ApiError_def new_ApiService_def no_options_def)
  show ?thesis using h request_throws_only_ApiError [OF h] by simp
qed

text \<open>
  Claim C7, at the input where the code departs from it. A response with status 500 whose
  body is the JSON text \<^verbatim>\<open>null\<close> decodes to \<^verbatim>\<open>null\<close>, so \<^verbatim>\<open>error.message\<close> throws a
  TypeError inside the \<^verbatim>\<open>try\<close> block and the \<^verbatim>\<open>catch\<close> block reports a network error:
  the ApiError carries status 0 and code NETWORK_ERROR instead of status 500.
\<close>

theorem request_null_error_body:
  "fst (request (env_always (FetchResolves (json_response 500 JNull)))
          (new_ApiService ''http://localhost:8000'') ''/chat/'' no_options)
   = Inl (ApiError (''Cannot read properties of null (reading '' @ [CHR 0x27] @ ''message'' @
                    [CHR 0x27] @ '')'') 0 (Some (JStr ''NETWORK_ERROR'')))"
  by (simp add: request_def request_config_def fetch_def env_always_def json_response_def request_try_def ok_def
      request_catch_def throw_new_ApiError_def new_ApiService_def no_options_def bind_err_def)

subsection \<open>The Simulated Responder\<close>

lemma length_DEMO_RESPONSES: "length DEMO_RESPONSES = 5"
  by (simp add: DEMO_RESPONSES_def)

lemma DEMO_RESPONSES_nonempty: "[] \<notin> set DEMO_RESPONSES"
  by (simp add: DEMO_RESPONSES_def)

lemma DEMO_RESPONSES_nth: "DEMO_RESPONSES ! (k mod 5) \<in> set DEMO_RESPONSES"
  by (simp add: length_DEMO_RESPONSES)

lemma demo_sendMessage_content:
  "msg_content (fst (demo_sendMessage E s message options))
     = Some (JStr (DEMO_RESPONSES ! (responseIndex s mod 5)))"
  by (simp add: demo_sendMessage_def Let_def date_now_def length_DEMO_RESPONSES)

lemma demo_sendMessage_state:
  "snd (demo_sendMessage E s message options)
     = s\<lparr>responseIndex := responseIndex s + 1, clock_reads := Suc (clock_reads s)\<rparr>"
  by (simp add: demo_sendMessage_def Let_def date_now_def)

lemma demo_sendMessage_isDemo: "msg_isDemo (fst (demo_sendMessage E s message options))"
  by (simp add: demo_sendMessage_def Let_def date_now_def)

lemma demo_sendMessage_sources:
  "msg_sources (fst (demo_sendMessage E s message options))
     = JArr (if useRag options = Some True
             then [JObj [(''document'', JStr ''demo_doc.pdf''), (''relevance'', JNum ''0.95''),
                         (''snippet'', JStr ''Sample relevant content...'')]]
             else [])"
  by (simp add: demo_sendMessage_def Let_def date_now_def)

lemma message_of_response_not_demo:
  "message_of_response r = Inr m \<Longrightarrow> \<not> msg_isDemo m"
  by (auto simp: message_of_response_def bind_err_def split: sum.splits)

lemma message_of_response_fields:
  "message_of_response r = Inr m \<Longrightarrow>
     rr_prop r ''content'' = Inr (msg_content m) \<and>
     (\<exists>src. rr_prop r ''sources'' = Inr src \<and> msg_sources m = or_else src (JArr []))"
  by (auto simp: message_of_response_def bind_err_def split: sum.splits)

text \<open>The three ways a chat call ends.\<close>

lemma sendMessage_cases:
  "(isDemoMode s \<and>
      sendMessage E s message options
        = (Inr (fst (demo_sendMessage E (s\<lparr>isDemoMode := True\<rparr>) message options)),
           snd (demo_sendMessage E (s\<lparr>isDemoMode := True\<rparr>) message options)))
   \<or> (\<not> isDemoMode s \<and> \<not> fst (checkBackendAvailable E s) \<and>
      sendMessage E s message options
        = (Inr (fst (demo_sendMessage E (snd (checkBackendAvailable E s)\<lparr>isDemoMode := True\<rparr>) message options)),
           snd (demo_sendMessage E (snd (checkBackendAvailable E s)\<lparr>isDemoMode := True\<rparr>) message options)))
   \<or> (\<not> isDemoMode s \<and> fst (checkBackendAvailable E s) \<and>
      (\<exists>m. bind_err (fst (chat_request E (snd (checkBackendAvailable E s)) message options))
              message_of_response = Inr m \<and>
           sendMessage E s message options
             = (Inr m, snd (chat_request E (snd (checkBackendAvailable E s)) message options))))
   \<or> (\<not> isDemoMode s \<and> fst (checkBackendAvailable E s) \<and>
      (\<exists>e. bind_err (fst (chat_request E (snd (checkBackendAvailable E s)) message options))
              message_of_response = Inl e) \<and>
      sendMessage E s message options
        = (Inr (fst (demo_sendMessage E (snd (chat_request E (snd (checkBackendAvailable E s)) message options)\<lparr>isDemoMode := True\<rparr>) message options)),
           snd (demo_sendMessage E (snd (chat_request E (snd (checkBackendAvailable E s)) message options)\<lparr>isDemoMode := True\<rparr>) message options)))"
  by (cases "isDemoMode s")
     (auto simp: sendMessage_def Let_def split: prod.splits sum.splits)

lemma demo_chat_run_Cons:
  "demo_chat_run E s ((message, options) # rest)
     = (fst (demo_sendMessage E s message options)
          # fst (demo_chat_run E (snd (demo_sendMessage E s message options)) rest),
        snd (demo_chat_run E (snd (demo_sendMessage E s message options)) rest))"
  by (simp add: case_prod_beta)

lemma demo_chat_run_nth:
  "n < length cs \<Longrightarrow>
     msg_content (fst (demo_chat_run E s cs) ! n)
       = Some (JStr (DEMO_RESPONSES ! ((responseIndex s + n) mod 5)))"
proof (induction cs arbitrary: s n)
  case Nil
  then show ?case by simp
next
  case (Cons c cs)
  obtain message options where c: "c = (message, options)" by (cases c)
  show ?case
  proof (cases n)
    case 0
    then show ?thesis
      using demo_sendMessage_content [of E s message options]
      by (simp add: c demo_chat_run_Cons del: demo_chat_run.simps)
  next
    case (Suc k)
    with Cons.prems have k: "k < length cs" by simp
    have "msg_content (fst (demo_chat_run E (snd (demo_sendMessage E s message options)) cs) ! k)
            = Some (JStr (DEMO_RESPONSES ! ((responseIndex (snd (demo_sendMessage E s message options)) + k) mod 5)))"
      by (rule Cons.IH [OF k])
    then show ?thesis
      by (simp add: c Suc demo_sendMessage_state demo_chat_run_Cons del: demo_chat_run.simps)
  qed
qed

text \<open>
  Claim C8. A simulated chat call answers with the canned response at position
  \<open>responseIndex mod 5\<close> and increments the index by exactly one, so in a sequence of calls
  on a fresh responder the \<open>n\<close>-th call (from 0) answers with the \<open>(n mod 5)\<close>-th canned
  response; and a chat call on a facade whose flag is clear and whose probe fails resolves
  with one of the canned responses and leaves the flag set.
\<close>

theorem demo_chat_cycles:
  "msg_content (fst (demo_sendMessage E s message options))
     = Some (JStr (DEMO_RESPONSES ! (responseIndex s mod 5)))
   \<and> responseIndex (snd (demo_sendMessage E s message options)) = responseIndex s + 1
   \<and> (responseIndex s = 0 \<and> n < length cs \<longrightarrow>
        msg_content (fst (demo_chat_run E s cs) ! n) = Some (JStr (DEMO_RESPONSES ! (n mod 5))))
   \<and> (\<not> isDemoMode s \<and> \<not> fst (checkBackendAvailable E s) \<longrightarrow>
        (\<exists>m. fst (sendMessage E s message options) = Inr m \<and>
             (\<exists>c\<in>set DEMO_RESPONSES. msg_content m = Some (JStr c))) \<and>
        isDemoMode (snd (sendMessage E s message options)))"
proof -
  have a: "msg_content (fst (demo_sendMessage E s message options))
             = Some (JStr (DEMO_RESPONSES ! (responseIndex s mod 5)))"
    by (rule demo_sendMessage_content)
  have b: "responseIndex (snd (demo_sendMessage E s message options)) = responseIndex s + 1"
    by (simp add: demo_sendMessage_state)
  have c: "responseIndex s = 0 \<and> n < length cs \<longrightarrow>
        msg_content (fst (demo_chat_run E s cs) ! n) = Some (JStr (DEMO_RESPONSES ! (n mod 5)))"
    using demo_chat_run_nth [of n cs E s] by simp
  have d: "\<not> isDemoMode s \<and> \<not> fst (checkBackendAvailable E s) \<longrightarrow>
        (\<exists>m. fst (sendMessage E s message options) = Inr m \<and>
             (\<exists>c\<in>set DEMO_RESPONSES. msg_content m = Some (JStr c))) \<and>
        isDemoMode (snd (sendMessage E s message options))"
    using sendMessage_cases [of s E message options]
    by (auto simp: demo_sendMessage_content demo_sendMessage_state DEMO_RESPONSES_nth)
  from a b c d show ?thesis by blast
qed

lemma dead_env_probe:
  "\<not> fst (checkBackendAvailable dead_env s)"
  by (simp add: checkBackendAvailable_def fetch_def dead_env_def env_always_def)

theorem demo_chat_cycles_witness:
  "responseIndex (new_ApiService ''http://localhost:8000'') = 0 \<and> 5 < length six_calls
   \<and> msg_content (fst (demo_chat_run dead_env (new_ApiService ''http://localhost:8000'') six_calls) ! 5)
       = Some (JStr (DEMO_RESPONSES ! 0))
   \<and> \<not> isDemoMode (new_ApiService ''http://localhost:8000'')
   \<and> \<not> fst (checkBackendAvailable dead_env (new_ApiService ''http://localhost:8000''))
   \<and> (\<exists>m. fst (sendMessage dead_env (new_ApiService ''http://localhost:8000'') ''hi'' no_chat_options) = Inr m \<and>
          (\<exists>c\<in>set DEMO_RESPONSES. msg_content m = Some (JStr c)))
   \<and> isDemoMode (snd (sendMessage dead_env (new_ApiService ''http://localhost:8000'') ''hi'' no_chat_options))"
  using demo_chat_cycles [of dead_env "new_ApiService ''http://localhost:8000''" "''hi''" no_chat_options 5 six_calls]
    dead_env_probe [of "new_ApiService ''http://localhost:8000''"]
  by (simp add: six_calls_def new_ApiService_def)

lemma DEMO_RESPONSES_nth_nonempty: "DEMO_RESPONSES ! (k mod 5) \<noteq> []"
  using DEMO_RESPONSES_nth [of k] DEMO_RESPONSES_nonempty by metis

text \<open>
  Claim C1, as amended. \<^verbatim>\<open>sendMessage\<close> never rejects. When the flag is set, the probe
  fails or the \<^verbatim>\<open>try\<close> block throws, the call is answered by the Simulated Responder:
  the content is one of the canned responses, which are not empty, and the flag is set
  afterwards. Otherwise the message is built from the backend's answer and its content is
  whatever the answer holds under \<^verbatim>\<open>content\<close>.
\<close>

theorem sendMessage_always_resolves:
  "\<exists>m. fst (sendMessage E s message options) = Inr m \<and>
     (if isDemoMode s \<or> \<not> fst (checkBackendAvailable E s) \<or>
         isl (bind_err (fst (chat_request E (snd (checkBackendAvailable E s)) message options))
                message_of_response)
      then msg_isDemo m \<and>
           (\<exists>c\<in>set DEMO_RESPONSES. c \<noteq> [] \<and> msg_content m = Some (JStr c)) \<and>
           isDemoMode (snd (sendMessage E s message options))
      else \<not> msg_isDemo m \<and>
           (\<exists>response. fst (chat_request E (snd (checkBackendAvailable E s)) message options)
                          = Inr response \<and>
                        message_of_response response = Inr m \<and>
                        rr_prop response ''content'' = Inr (msg_content m)))"
  using sendMessage_cases [of s E message options]
proof (elim disjE conjE exE)
  assume "isDemoMode s"
    and "sendMessage E s message options
           = (Inr (fst (demo_sendMessage E (s\<lparr>isDemoMode := True\<rparr>) message options)),
              snd (demo_sendMessage E (s\<lparr>isDemoMode := True\<rparr>) message options))"
  then show ?thesis
    by (simp add: demo_sendMessage_content demo_sendMessage_state demo_sendMessage_isDemo
        DEMO_RESPONSES_nth DEMO_RESPONSES_nth_nonempty)
next
  assume "\<not> isDemoMode s" and "\<not> fst (checkBackendAvailable E s)"
    and "sendMessage E s message options
        = (Inr (fst (demo_sendMessage E (snd (checkBackendAvailable E s)\<lparr>isDemoMode := True\<rparr>) message options)),
           snd (demo_sendMessage E (snd (checkBackendAvailable E s)\<lparr>isDemoMode := True\<rparr>) message options))"
  then show ?thesis
    by (simp add: demo_sendMessage_content demo_sendMessage_state demo_sendMessage_isDemo
        DEMO_RESPONSES_nth DEMO_RESPONSES_nth_nonempty)
next
  fix m
  assume nd: "\<not> isDemoMode s" and av: "fst (checkBackendAvailable E s)"
    and b: "bind_err (fst (chat_request E (snd (checkBackendAvailable E s)) message options))
              message_of_response = Inr m"
    and r: "sendMessage E s message options
             = (Inr m, snd (chat_request E (snd (checkBackendAvailable E s)) message options))"
  from b obtain response where
    resp: "fst (chat_request E (snd (checkBackendAvailable E s)) message options) = Inr response"
    and mr: "message_of_response response = Inr m"
    by (auto simp: bind_err_def split: sum.splits)
  from nd av b r resp mr show ?thesis
    by (simp add: message_of_response_not_demo message_of_response_fields)
next
  fix e
  assume "\<not> isDemoMode s" and "fst (checkBackendAvailable E s)"
    and "bind_err (fst (chat_request E (snd (checkBackendAvailable E s)) message options))
              message_of_response = Inl e"
    and "sendMessage E s message options
        = (Inr (fst (demo_sendMessage E (snd (chat_request E (snd (checkBackendAvailable E s)) message options)\<lparr>isDemoMode := True\<rparr>) message options)),
           snd (demo_sendMessage E (snd (chat_request E (snd (checkBackendAvailable E s)) message options)\<lparr>isDemoMode := True\<rparr>) message options))"
  then show ?thesis
    by (simp add: demo_sendMessage_content demo_sendMessage_state demo_sendMessage_isDemo
        DEMO_RESPONSES_nth DEMO_RESPONSES_nth_nonempty)
qed

theorem sendMessage_always_resolves_witness:
  "\<not> fst (checkBackendAvailable dead_env (new_ApiService ''http://localhost:8000'')) \<and>
   (\<exists>m. fst (sendMessage dead_env (new_ApiService ''http://localhost:8000'') ''hi'' no_chat_options) = Inr m \<and>
       msg_isDemo m \<and>
       (\<exists>c\<in>set DEMO_RESPONSES. c \<noteq> [] \<and> msg_content m = Some (JStr c)) \<and>
       isDemoMode (snd (sendMessage dead_env (new_ApiService ''http://localhost:8000'') ''hi'' no_chat_options)))"
  using sendMessage_always_resolves [of dead_env "new_ApiService ''http://localhost:8000''" "''hi''" no_chat_options]
    dead_env_probe [of "new_ApiService ''http://localhost:8000''"]
  by simp

text \<open>
  Claim C1 as stated fails: a reachable backend that answers 200 with an empty
  \<^verbatim>\<open>content\<close> makes the call resolve with empty content.
\<close>

theorem sendMessage_empty_content:
  "fst (sendMessage empty_answer_env (new_ApiService ''http://localhost:8000'') ''hi'' no_chat_options)
     = Inr \<lparr>msg_id = None, msg_conversationId = None, msg_content = Some (JStr []),
            msg_model = None, msg_sources = JArr [], msg_usage = None, msg_isDemo = False\<rparr>"
  by (simp add: sendMessage_def checkBackendAvailable_def chat_request_def request_def request_config_def fetch_def
      empty_answer_env_def env_always_def json_response_def request_try_def ok_def
      new_ApiService_def bind_err_def message_of_response_def or_else_def)

lemma or_else_array: "or_else (Some (JArr hs)) d = JArr hs"
  by (simp add: or_else_def)

lemma or_else_undefined: "or_else None d = d"
  by (simp add: or_else_def)

text \<open>
  Claim C6, as amended. The sources of the returned message are the hits of the answer
  that served the call. Served by the Simulated Responder, the list holds the one
  synthetic source when \<^verbatim>\<open>useRag\<close> is true and is empty otherwise. Served by the
  backend, it is the backend's \<^verbatim>\<open>sources\<close> as returned (the empty list when the field is
  missing or falsy), whatever \<^verbatim>\<open>useRag\<close> was.
\<close>

theorem sendMessage_sources:
  "\<exists>m. fst (sendMessage E s message options) = Inr m \<and>
     (if msg_isDemo m
      then msg_sources m
             = JArr (if useRag options = Some True
                     then [JObj [(''document'', JStr ''demo_doc.pdf''), (''relevance'', JNum ''0.95''),
                                 (''snippet'', JStr ''Sample relevant content...'')]]
                     else [])
      else (\<exists>response src.
              fst (chat_request E (snd (checkBackendAvailable E s)) message options) = Inr response \<and>
              rr_prop response ''sources'' = Inr src \<and>
              msg_sources m = or_else src (JArr []) \<and>
              (\<forall>hs. src = Some (JArr hs) \<longrightarrow> msg_sources m = JArr hs) \<and>
              (src = None \<longrightarrow> msg_sources m = JArr [])))"
  using sendMessage_cases [of s E message options]
proof (elim disjE conjE exE)
  fix m
  assume b: "bind_err (fst (chat_request E (snd (checkBackendAvailable E s)) message options))
              message_of_response = Inr m"
    and r: "sendMessage E s message options
             = (Inr m, snd (chat_request E (snd (checkBackendAvailable E s)) message options))"
  from b obtain response where
    resp: "fst (chat_request E (snd (checkBackendAvailable E s)) message options) = Inr response"
    and mr: "message_of_response response = Inr m"
    by (auto simp: bind_err_def split: sum.splits)
  from message_of_response_fields [OF mr] obtain src where
    src: "rr_prop response ''sources'' = Inr src" "msg_sources m = or_else src (JArr [])"
    by blast
  from r resp mr src show ?thesis
    by (auto simp: message_of_response_not_demo or_else_array or_else_undefined)
qed (simp_all add: demo_sendMessage_sources demo_sendMessage_isDemo)

text \<open>
  Claim C6 as stated fails: with \<^verbatim>\<open>useRag\<close> false, a backend that returns a hit all the
  same gives a message with one source.
\<close>

theorem sendMessage_sources_without_rag:
  "useRag (rag_options False) = Some False \<and>
   fst (sendMessage hit_env (new_ApiService ''http://localhost:8000'') ''hi'' (rag_options False))
     = Inr \<lparr>msg_id = None, msg_conversationId = None, msg_content = Some (JStr ''ok''),
            msg_model = None, msg_sources = JArr [one_hit], msg_usage = None, msg_isDemo = False\<rparr>"
  by (simp add: sendMessage_def checkBackendAvailable_def chat_request_def request_def request_config_def fetch_def
      hit_env_def env_always_def json_response_def request_try_def ok_def rag_options_def
      no_chat_options_def new_ApiService_def bind_err_def message_of_response_def or_else_def)

theorem sendMessage_sources_witness:
  "\<exists>m. fst (sendMessage hit_env (new_ApiService ''http://localhost:8000'') ''hi'' (rag_options True)) = Inr m \<and>
       \<not> msg_isDemo m \<and> msg_sources m = JArr [one_hit]"
proof -
  have h: "fst (sendMessage hit_env (new_ApiService ''http://localhost:8000'') ''hi'' (rag_options True))
     = Inr \<lparr>msg_id = None, msg_conversationId = None, msg_content = Some (JStr ''ok''),
            msg_model = None, msg_sources = JArr [one_hit], msg_usage = None, msg_isDemo = False\<rparr>"
    by (simp add: sendMessage_def checkBackendAvailable_def chat_request_def request_def request_config_def fetch_def
      hit_env_def env_always_def json_response_def request_try_def ok_def rag_options_def
      no_chat_options_def new_ApiService_def bind_err_def message_of_response_def or_else_def)
  show ?thesis
    using sendMessage_sources [of hit_env "new_ApiService ''http://localhost:8000''" "''hi''" "rag_options True"] h
    by simp
qed

subsection \<open>The fallback latch\<close>

lemma request_state:
  "snd (request E s endpoint options)
     = s\<lparr>calls := calls s @ [request_config s endpoint options]\<rparr>"
  by (simp add: request_def fetch_def split: sum.splits)

lemma request_result:
  "fst (request E s endpoint options)
     = (case request_try (net E (length (calls s)) (request_config s endpoint options))
               (opt_stream options) of
          Inl error \<Rightarrow> Inl (request_catch error)
        | Inr v \<Rightarrow> Inr v)"
  by (simp add: request_def fetch_def split: sum.splits)

lemma checkBackendAvailable_state:
  "snd (checkBackendAvailable E s)
     = s\<lparr>calls := calls s @ [\<lparr>req_url = baseUrl s @ ''/health/'', req_method = Some ''GET'',
                                req_headers = [], req_body = None, req_timeout = Some 3000\<rparr>]\<rparr>"
  by (simp add: checkBackendAvailable_def fetch_def split: fetch_outcome.splits)

lemma streamMessage_state:
  "snd (snd (streamMessage E s message options))
     = snd (request E s ''/chat/stream''
              \<lparr>opt_method = Some ''POST'', opt_body = Some (chat_body message options True),
               opt_headers = None, opt_stream = True\<rparr>)"
  by (simp add: streamMessage_def split: prod.splits sum.splits)

lemma sendMessage_latched:
  "isDemoMode s \<Longrightarrow>
     sendMessage E s message options
       = (Inr (fst (demo_sendMessage E s message options)),
          s\<lparr>responseIndex := responseIndex s + 1, clock_reads := Suc (clock_reads s)\<rparr>)"
proof -
  assume d: "isDemoMode s"
  then have eq: "s\<lparr>isDemoMode := True\<rparr> = s" by simp
  from d show ?thesis
    by (simp add: sendMessage_def eq case_prod_beta demo_sendMessage_state)
qed

lemma sendMessage_isDemoMode:
  "isDemoMode s \<Longrightarrow> isDemoMode (snd (sendMessage E s message options))"
  by (simp add: sendMessage_latched)

lemma exec_latched: "isDemoMode s \<Longrightarrow> isDemoMode (exec E s op)"
proof (cases op)
  case (SendMessage message options)
  assume "isDemoMode s"
  then show ?thesis by (simp add: SendMessage sendMessage_isDemoMode)
next
  case (StreamMessage message options)
  assume "isDemoMode s"
  then show ?thesis by (simp add: StreamMessage streamMessage_state request_state)
qed (simp_all add: setBaseUrl_def checkBackendAvailable_state request_state
      getConversation_def deleteConversation_def listConversations_def ingestText_def
      ingestFile_def uploadDocument_def search_def getDocuments_def deleteDocument_def
      getRAGStats_def listModels_def switchModel_def pullModel_def healthCheck_def
      liveness_def readiness_def getConfig_def)

lemma run_ops_latched: "isDemoMode s \<Longrightarrow> isDemoMode (run_ops E s ops)"
  by (induction ops arbitrary: s) (simp_all add: exec_latched)

lemma latched_sys_eq:
  "latched_sys =
     \<lparr>baseUrl = ''http://localhost:8000'', isDemoMode = True, responseIndex = 0,
      calls = [\<lparr>req_url = ''http://localhost:8000/models/'', req_method = None,
                req_headers = [(''Content-Type'', ''application/json'')],
                req_body = None, req_timeout = None\<rparr>],
      clock_reads = 0\<rparr>"
  by (simp add: latched_sys_def listModels_def request_def request_config_def fetch_def
      dead_env_def env_always_def request_try_def new_ApiService_def no_options_def)

lemma fallback_flag:
  assumes "\<not> isDemoMode s"
  shows "isDemoMode (snd (case request E s ep no_options of
                            (Inr v, s') \<Rightarrow> (Inr v, s')
                          | (Inl error, s') \<Rightarrow> (Inr (Parsed demo), s'\<lparr>isDemoMode := True\<rparr>)))
           = isl (fst (request E s ep no_options))"
proof -
  obtain r s' where eq: "request E s ep no_options = (r, s')"
    by (cases "request E s ep no_options")
  have "s' = snd (request E s ep no_options)" by (simp add: eq)
  then have nd: "\<not> isDemoMode s'" using assms by (simp add: request_state)
  show ?thesis
    by (cases r) (simp_all add: eq nd)
qed

lemma fallback_sets_flag:
  "\<not> isDemoMode s \<Longrightarrow>
     isDemoMode (snd (getDocuments E s)) = isl (fst (request E s ''/rag/documents'' no_options)) \<and>
     isDemoMode (snd (listModels E s)) = isl (fst (request E s ''/models/'' no_options)) \<and>
     isDemoMode (snd (healthCheck E s)) = isl (fst (request E s ''/health/'' no_options))"
  by (simp add: getDocuments_def listModels_def healthCheck_def fallback_flag)

lemma sendMessage_sets_flag:
  assumes nd: "\<not> isDemoMode s"
  shows "isDemoMode (snd (sendMessage E s message options))
           = (\<not> fst (checkBackendAvailable E s) \<or>
              isl (bind_err (fst (chat_request E (snd (checkBackendAvailable E s)) message options))
                     message_of_response))"
proof -
  have st: "\<not> isDemoMode (snd (chat_request E (snd (checkBackendAvailable E s)) message options))"
    using nd by (simp add: chat_request_def request_state checkBackendAvailable_state)
  from sendMessage_cases [of s E message options] nd show ?thesis
  proof (elim disjE conjE exE)
    fix m
    assume "bind_err (fst (chat_request E (snd (checkBackendAvailable E s)) message options))
              message_of_response = Inr m"
      and "fst (checkBackendAvailable E s)"
      and "sendMessage E s message options
             = (Inr m, snd (chat_request E (snd (checkBackendAvailable E s)) message options))"
    with st show ?thesis by simp
  qed (simp_all add: demo_sendMessage_state)
qed

text \<open>
  Claim C2, as amended. Once the flag is set it stays set through every sequence of facade
  operations, whatever the network answers. While it is set, \<^verbatim>\<open>sendMessage\<close>,
  \<^verbatim>\<open>getDocuments\<close>, \<^verbatim>\<open>listModels\<close> and \<^verbatim>\<open>healthCheck\<close> are answered by the Simulated
  Responder and hand nothing to \<^verbatim>\<open>fetch\<close>. While it is clear, \<^verbatim>\<open>getDocuments\<close>,
  \<^verbatim>\<open>listModels\<close> and \<^verbatim>\<open>healthCheck\<close> set it exactly when their request throws.
  \<^verbatim>\<open>switchModel\<close> has no simulated path: it always issues its request and changes nothing
  else.
\<close>

theorem demo_latch:
  "(isDemoMode s \<longrightarrow>
      isDemoMode (run_ops E s ops) \<and>
      fst (sendMessage E s message options) = Inr (fst (demo_sendMessage E s message options)) \<and>
      calls (snd (sendMessage E s message options)) = calls s \<and>
      getDocuments E s = (Inr (Parsed (demo_getDocuments E)), s) \<and>
      listModels E s = (Inr (Parsed (demo_getModels E)), s) \<and>
      healthCheck E s = (Inr (Parsed demo_checkHealth), s))
   \<and> (\<not> isDemoMode s \<longrightarrow>
      isDemoMode (snd (getDocuments E s)) = isl (fst (request E s ''/rag/documents'' no_options)) \<and>
      isDemoMode (snd (listModels E s)) = isl (fst (request E s ''/models/'' no_options)) \<and>
      isDemoMode (snd (healthCheck E s)) = isl (fst (request E s ''/health/'' no_options)) \<and>
      isDemoMode (snd (sendMessage E s message options))
        = (\<not> fst (checkBackendAvailable E s) \<or>
           isl (bind_err (fst (chat_request E (snd (checkBackendAvailable E s)) message options))
                  message_of_response)))
   \<and> snd (switchModel E s modelName)
       = s\<lparr>calls := calls s @
              [request_config s ''/models/switch''
                 \<lparr>opt_method = Some ''POST'',
                  opt_body = Some (JsonBody (JObj [(''model'', JStr modelName)])),
                  opt_headers = None, opt_stream = False\<rparr>]\<rparr>"
proof -
  have a: "isDemoMode s \<longrightarrow>
      isDemoMode (run_ops E s ops) \<and>
      fst (sendMessage E s message options) = Inr (fst (demo_sendMessage E s message options)) \<and>
      calls (snd (sendMessage E s message options)) = calls s \<and>
      getDocuments E s = (Inr (Parsed (demo_getDocuments E)), s) \<and>
      listModels E s = (Inr (Parsed (demo_getModels E)), s) \<and>
      healthCheck E s = (Inr (Parsed demo_checkHealth), s)"
    by (simp add: run_ops_latched sendMessage_latched getDocuments_def listModels_def
        healthCheck_def)
  have b: "\<not> isDemoMode s \<longrightarrow>
      isDemoMode (snd (getDocuments E s)) = isl (fst (request E s ''/rag/documents'' no_options)) \<and>
      isDemoMode (snd (listModels E s)) = isl (fst (request E s ''/models/'' no_options)) \<and>
      isDemoMode (snd (healthCheck E s)) = isl (fst (request E s ''/health/'' no_options)) \<and>
      isDemoMode (snd (sendMessage E s message options))
        = (\<not> fst (checkBackendAvailable E s) \<or>
           isl (bind_err (fst (chat_request E (snd (checkBackendAvailable E s)) message options))
                  message_of_response))"
  proof
    assume nd: "\<not> isDemoMode s"
    show "isDemoMode (snd (getDocuments E s)) = isl (fst (request E s ''/rag/documents'' no_options)) \<and>
      isDemoMode (snd (listModels E s)) = isl (fst (request E s ''/models/'' no_options)) \<and>
      isDemoMode (snd (healthCheck E s)) = isl (fst (request E s ''/health/'' no_options)) \<and>
      isDemoMode (snd (sendMessage E s message options))
        = (\<not> fst (checkBackendAvailable E s) \<or>
           isl (bind_err (fst (chat_request E (snd (checkBackendAvailable E s)) message options))
                  message_of_response))"
      using fallback_sets_flag [OF nd, of E] sendMessage_sets_flag [OF nd, of E message options]
      by (intro conjI) (elim conjE, assumption)+
  qed
  have c: "snd (switchModel E s modelName)
       = s\<lparr>calls := calls s @
              [request_config s ''/models/switch''
                 \<lparr>opt_method = Some ''POST'',
                  opt_body = Some (JsonBody (JObj [(''model'', JStr modelName)])),
                  opt_headers = None, opt_stream = False\<rparr>]\<rparr>"
    by (simp add: switchModel_def request_state)
  show ?thesis by (rule conjI [OF a conjI [OF b c]])
qed

theorem demo_latch_witness:
  "isDemoMode latched_sys \<and>
   isDemoMode (run_ops hit_env latched_sys [SwitchModel ''gemma2:9b'', ListModels, HealthCheck]) \<and>
   calls (snd (sendMessage hit_env latched_sys ''hi'' no_chat_options)) = calls latched_sys \<and>
   listModels hit_env latched_sys = (Inr (Parsed (demo_getModels hit_env)), latched_sys) \<and>
   healthCheck hit_env latched_sys = (Inr (Parsed demo_checkHealth), latched_sys) \<and>
   \<not> isDemoMode (new_ApiService ''http://localhost:8000'') \<and>
   isDemoMode (snd (listModels dead_env (new_ApiService ''http://localhost:8000'')))"
proof -
  have h: "isDemoMode latched_sys" by (simp add: latched_sys_eq)
  have n: "\<not> isDemoMode (new_ApiService ''http://localhost:8000'')"
    by (simp add: new_ApiService_def)
  have f: "isl (fst (request dead_env (new_ApiService ''http://localhost:8000'') ''/models/'' no_options))"
    by (simp add: request_result dead_env_def env_always_def request_try_def)
  note live = demo_latch [of latched_sys hit_env
        "[SwitchModel ''gemma2:9b'', ListModels, HealthCheck]" "''hi''" no_chat_options
        "''gemma2:9b''", THEN conjunct1, THEN mp, OF h]
  note dead = demo_latch [of "new_ApiService ''http://localhost:8000''" dead_env
        "[]" "''hi''" no_chat_options "''gemma2:9b''", THEN conjunct2, THEN conjunct1, THEN mp, OF n]
  have l: "isDemoMode (snd (listModels dead_env (new_ApiService ''http://localhost:8000'')))"
    using dead [THEN conjunct2, THEN conjunct1] f by simp
  show ?thesis
    by (intro conjI h n l live [THEN conjunct1]
        live [THEN conjunct2, THEN conjunct2, THEN conjunct1]
        live [THEN conjunct2, THEN conjunct2, THEN conjunct2, THEN conjunct2, THEN conjunct1]
        live [THEN conjunct2, THEN conjunct2, THEN conjunct2, THEN conjunct2, THEN conjunct2])
qed

text \<open>
  Claim C2 as stated fails: after a failed \<^verbatim>\<open>listModels\<close> has set the flag,
  \<^verbatim>\<open>switchModel\<close> still hands a request to \<^verbatim>\<open>fetch\<close>.
\<close>

theorem switchModel_while_latched:
  "isDemoMode latched_sys \<and>
   calls (snd (switchModel hit_env latched_sys ''gemma2:9b''))
     = calls latched_sys @
         [\<lparr>req_url = ''http://localhost:8000/models/switch'', req_method = Some ''POST'',
           req_headers = [(''Content-Type'', ''application/json'')],
           req_body = Some (JsonBody (JObj [(''model'', JStr ''gemma2:9b'')])),
           req_timeout = None\<rparr>]"
  by (simp add: latched_sys_eq switchModel_def request_state request_config_def)

lemma healthCheck_state_fields:
  "baseUrl (snd (healthCheck E s)) = baseUrl s \<and>
   responseIndex (snd (healthCheck E s)) = responseIndex s \<and>
   clock_reads (snd (healthCheck E s)) = clock_reads s"
proof (cases "isDemoMode s")
  case True
  then show ?thesis by (simp add: healthCheck_def)
next
  case False
  obtain r s' where eq: "request E s ''/health/'' no_options = (r, s')"
    by (cases "request E s ''/health/'' no_options")
  have "s' = snd (request E s ''/health/'' no_options)" by (simp add: eq)
  then have "baseUrl s' = baseUrl s \<and> responseIndex s' = responseIndex s \<and>
             clock_reads s' = clock_reads s"
    by (simp add: request_state)
  with False show ?thesis
    by (cases r) (simp_all add: healthCheck_def eq)
qed

lemma checkHealth_state:
  "snd (checkHealth E s h)
     = (snd (healthCheck E s))\<lparr>clock_reads := Suc (clock_reads (snd (healthCheck E s)))\<rparr>"
  by (simp add: checkHealth_def date_now_def case_prod_beta Let_def)

lemma checkHealth_lastCheck:
  "h_lastCheck (fst (checkHealth E s h)) = Some (clock E (clock_reads (snd (healthCheck E s))))"
  by (simp add: checkHealth_def date_now_def case_prod_beta Let_def)

text \<open>
  Claim C4, as amended. A health check of \<^verbatim>\<open>useHealthCheck\<close> never clears the facade's
  flag and changes neither the base URL nor the responder's counter, but it is not
  decoupled from the flag: the flag is set afterwards exactly when it was set before or the
  \<^verbatim>\<open>/health/\<close> request threw. The check records the clock reading as \<^verbatim>\<open>lastCheck\<close>; with
  the flag set it issues no request and reports the simulated status \<^verbatim>\<open>demo\<close> with no
  error.
\<close>

theorem checkHealth_flag:
  "isDemoMode (snd (checkHealth E s h))
     = (isDemoMode s \<or> isl (fst (request E s ''/health/'' no_options)))
   \<and> baseUrl (snd (checkHealth E s h)) = baseUrl s
   \<and> responseIndex (snd (checkHealth E s h)) = responseIndex s
   \<and> h_lastCheck (fst (checkHealth E s h)) = Some (clock E (clock_reads s))
   \<and> (isDemoMode s \<longrightarrow>
        calls (snd (checkHealth E s h)) = calls s \<and>
        h_status (fst (checkHealth E s h)) = Some (JStr ''demo'') \<and>
        h_error (fst (checkHealth E s h)) = None)"
proof -
  have a: "isDemoMode (snd (checkHealth E s h))
     = (isDemoMode s \<or> isl (fst (request E s ''/health/'' no_options)))"
  proof (cases "isDemoMode s")
    case True
    then show ?thesis by (simp add: checkHealth_state healthCheck_def)
  next
    case False
    then show ?thesis using fallback_sets_flag [of s E] by (simp add: checkHealth_state)
  qed
  have b: "baseUrl (snd (checkHealth E s h)) = baseUrl s"
    by (simp add: checkHealth_state healthCheck_state_fields)
  have c: "responseIndex (snd (checkHealth E s h)) = responseIndex s"
    by (simp add: checkHealth_state healthCheck_state_fields)
  have d: "h_lastCheck (fst (checkHealth E s h)) = Some (clock E (clock_reads s))"
    by (simp add: checkHealth_lastCheck healthCheck_state_fields)
  have e: "isDemoMode s \<longrightarrow>
        calls (snd (checkHealth E s h)) = calls s \<and>
        h_status (fst (checkHealth E s h)) = Some (JStr ''demo'') \<and>
        h_error (fst (checkHealth E s h)) = None"
    by (simp add: checkHealth_def healthCheck_def date_now_def bind_err_def demo_checkHealth_def)
  show ?thesis by (rule conjI [OF a conjI [OF b conjI [OF c conjI [OF d e]]]])
qed

text \<open>
  Claim C4 as stated fails: on a fresh facade whose backend is unreachable, one health
  check sets the flag.
\<close>

theorem checkHealth_sets_flag:
  "\<not> isDemoMode (new_ApiService ''http://localhost:8000'') \<and>
   isDemoMode (snd (checkHealth dead_env (new_ApiService ''http://localhost:8000'') useHealthCheck_init))"
  by (simp add: checkHealth_def healthCheck_def request_def request_config_def fetch_def
      dead_env_def env_always_def request_try_def new_ApiService_def no_options_def
      date_now_def bind_err_def demo_checkHealth_def)

theorem checkHealth_flag_witness:
  "isDemoMode latched_sys \<and>
   calls (snd (checkHealth hit_env latched_sys useHealthCheck_init)) = calls latched_sys \<and>
   h_status (fst (checkHealth hit_env latched_sys useHealthCheck_init)) = Some (JStr ''demo'') \<and>
   h_error (fst (checkHealth hit_env latched_sys useHealthCheck_init)) = None \<and>
   isDemoMode (snd (checkHealth hit_env latched_sys useHealthCheck_init))"
proof -
  have h: "isDemoMode latched_sys" by (simp add: latched_sys_eq)
  show ?thesis
    using h checkHealth_flag [of hit_env latched_sys useHealthCheck_init] by simp
qed

lemma request_resolves_iff:
  "(\<exists>v. fst (request E s endpoint options) = Inr v)
     = (\<exists>r. net E (length (calls s)) (request_config s endpoint options) = FetchResolves r \<and>
            ok r \<and> (opt_stream options \<or> (\<exists>j. resp_json r = Inr j)))"
  by (auto simp: request_result request_try_def bind_err_def Let_def
      split: fetch_outcome.splits sum.splits if_splits)

lemma request_Inl_is_ApiError:
  "fst (request E s endpoint options) = Inl e \<Longrightarrow> is_ApiError e"
  by (auto simp: request_def request_catch_is_ApiError split: prod.splits sum.splits)

lemma demo_current_model:
  "get_prop (demo_getModels E) ''current_model'' = Inr (Some (JStr ''deepseek-r1:latest''))"
  by (simp add: demo_getModels_def)

text \<open>
  Claim C5, as amended. \<^verbatim>\<open>switchModel\<close> always sends its request, also while the flag is
  set; it resolves exactly when the backend answers with an ok response whose body decodes,
  and otherwise rejects with an ApiError. It changes only the list of requests issued, so a
  \<^verbatim>\<open>listModels\<close> that follows it while the flag is set is answered by the Simulated
  Responder, whose \<^verbatim>\<open>current_model\<close> is the fixed \<^verbatim>\<open>deepseek-r1:latest\<close>.
\<close>

theorem switchModel_not_simulated:
  "snd (switchModel E s modelName)
     = s\<lparr>calls := calls s @
            [request_config s ''/models/switch''
               \<lparr>opt_method = Some ''POST'',
                opt_body = Some (JsonBody (JObj [(''model'', JStr modelName)])),
                opt_headers = None, opt_stream = False\<rparr>]\<rparr>
   \<and> ((\<exists>v. fst (switchModel E s modelName) = Inr v)
        = (\<exists>r. net E (length (calls s))
                  (request_config s ''/models/switch''
                     \<lparr>opt_method = Some ''POST'',
                      opt_body = Some (JsonBody (JObj [(''model'', JStr modelName)])),
                      opt_headers = None, opt_stream = False\<rparr>) = FetchResolves r \<and>
               ok r \<and> (\<exists>j. resp_json r = Inr j)))
   \<and> (\<forall>e. fst (switchModel E s modelName) = Inl e \<longrightarrow> is_ApiError e)
   \<and> (isDemoMode s \<longrightarrow>
        fst (listModels E (snd (switchModel E s modelName))) = Inr (Parsed (demo_getModels E)))
   \<and> get_prop (demo_getModels E) ''current_model'' = Inr (Some (JStr ''deepseek-r1:latest''))"
proof -
  have a: "snd (switchModel E s modelName)
     = s\<lparr>calls := calls s @
            [request_config s ''/models/switch''
               \<lparr>opt_method = Some ''POST'',
                opt_body = Some (JsonBody (JObj [(''model'', JStr modelName)])),
                opt_headers = None, opt_stream = False\<rparr>]\<rparr>"
    by (simp add: switchModel_def request_state)
  have b: "(\<exists>v. fst (switchModel E s modelName) = Inr v)
        = (\<exists>r. net E (length (calls s))
                  (request_config s ''/models/switch''
                     \<lparr>opt_method = Some ''POST'',
                      opt_body = Some (JsonBody (JObj [(''model'', JStr modelName)])),
                      opt_headers = None, opt_stream = False\<rparr>) = FetchResolves r \<and>
               ok r \<and> (\<exists>j. resp_json r = Inr j))"
    unfolding switchModel_def by (subst request_resolves_iff) simp
  have c: "\<forall>e. fst (switchModel E s modelName) = Inl e \<longrightarrow> is_ApiError e"
    by (simp add: switchModel_def request_Inl_is_ApiError)
  have d: "isDemoMode s \<longrightarrow>
        fst (listModels E (snd (switchModel E s modelName))) = Inr (Parsed (demo_getModels E))"
    by (simp add: a listModels_def)
  show ?thesis
    by (rule conjI [OF a conjI [OF b conjI [OF c conjI [OF d demo_current_model]]]])
qed

text \<open>
  Claim C5 as stated fails: with the flag set and the backend unreachable,
  \<^verbatim>\<open>switchModel\<close> rejects.
\<close>

theorem switchModel_rejects_while_latched:
  "isDemoMode latched_sys \<and>
   fst (switchModel dead_env latched_sys ''gemma2:9b'')
     = Inl (ApiError ''Failed to fetch'' 0 (Some (JStr ''NETWORK_ERROR'')))"
  by (simp add: latched_sys_eq switchModel_def request_def request_config_def fetch_def
      dead_env_def env_always_def request_try_def request_catch_def throw_new_ApiError_def)

theorem switchModel_not_simulated_witness:
  "isDemoMode latched_sys \<and>
   fst (listModels hit_env (snd (switchModel hit_env latched_sys ''gemma2:9b'')))
     = Inr (Parsed (demo_getModels hit_env)) \<and>
   get_prop (demo_getModels hit_env) ''current_model'' = Inr (Some (JStr ''deepseek-r1:latest'')) \<and>
   fst (switchModel dead_env latched_sys ''gemma2:9b'')
     = Inl (ApiError ''Failed to fetch'' 0 (Some (JStr ''NETWORK_ERROR''))) \<and>
   is_ApiError (ApiError ''Failed to fetch'' 0 (Some (JStr ''NETWORK_ERROR'')))"
proof -
  have h: "isDemoMode latched_sys" by (simp add: latched_sys_eq)
  have r: "fst (switchModel dead_env latched_sys ''gemma2:9b'')
             = Inl (ApiError ''Failed to fetch'' 0 (Some (JStr ''NETWORK_ERROR'')))"
    by (simp add: latched_sys_eq switchModel_def request_def request_config_def fetch_def
        dead_env_def env_always_def request_try_def request_catch_def throw_new_ApiError_def)
  note live = switchModel_not_simulated [of hit_env latched_sys "''gemma2:9b''"]
  note dead = switchModel_not_simulated [of dead_env latched_sys "''gemma2:9b''"]
  have l: "fst (listModels hit_env (snd (switchModel hit_env latched_sys ''gemma2:9b'')))
        = Inr (Parsed (demo_getModels hit_env))"
    by (rule live [THEN conjunct2, THEN conjunct2, THEN conjunct2, THEN conjunct1, THEN mp, OF h])
  have cm: "get_prop (demo_getModels hit_env) ''current_model''
        = Inr (Some (JStr ''deepseek-r1:latest''))"
    by (rule live [THEN conjunct2, THEN conjunct2, THEN conjunct2, THEN conjunct2])
  have ia: "is_ApiError (ApiError ''Failed to fetch'' 0 (Some (JStr ''NETWORK_ERROR'')))"
    by (rule dead [THEN conjunct2, THEN conjunct2, THEN conjunct1, THEN spec, THEN mp, OF r])
  show ?thesis by (intro conjI h l cm r ia)
qed

text \<open>
  The error mapping of \<^verbatim>\<open>request\<close> on the inputs where it works as documented. A rejected
  fetch gives an ApiError with status 0 and code NETWORK_ERROR. A response that is not ok
  gives an ApiError carrying the response's status: with the body's \<^verbatim>\<open>message\<close> when the
  body is an object holding a non-empty string there, and with \<^verbatim>\<open>HTTP\<close> followed by the
  status when the object has no message or the body does not decode.
\<close>

theorem request_error_mapping:
  "(net E (length (calls s)) (request_config s endpoint options) = FetchRejects m \<longrightarrow>
      fst (request E s endpoint options)
        = Inl (ApiError (if m = [] then ''Network error'' else m) 0 (Some (JStr ''NETWORK_ERROR''))))
   \<and> (net E (length (calls s)) (request_config s endpoint options) = FetchResolves r \<and> \<not> ok r \<longrightarrow>
      (resp_json r = Inr (JObj kvs) \<and> map_of kvs ''message'' = Some (JStr msg) \<and> msg \<noteq> [] \<longrightarrow>
         fst (request E s endpoint options)
           = Inl (ApiError msg (resp_status r) (map_of kvs ''code''))) \<and>
      (resp_json r = Inr (JObj kvs) \<and> map_of kvs ''message'' = None \<longrightarrow>
         fst (request E s endpoint options)
           = Inl (ApiError (''HTTP '' @ show_nat (resp_status r)) (resp_status r)
                    (map_of kvs ''code''))) \<and>
      (isl (resp_json r) \<longrightarrow>
         fst (request E s endpoint options)
           = Inl (ApiError (''HTTP '' @ show_nat (resp_status r)) (resp_status r) None)))"
  by (auto simp: request_result request_try_def request_catch_def throw_new_ApiError_def
      bind_err_def Let_def split: sum.splits)

theorem request_error_mapping_witness:
  "fst (request (env_always (FetchResolves (json_response 404 (JObj [(''detail'', JStr ''Not Found'')]))))
          (new_ApiService ''http://localhost:8000'') ''/chat/'' no_options)
     = Inl (ApiError ''HTTP 404'' 404 None)
   \<and> fst (request dead_env (new_ApiService ''http://localhost:8000'') ''/chat/'' no_options)
     = Inl (ApiError ''Failed to fetch'' 0 (Some (JStr ''NETWORK_ERROR'')))"
proof -
  have a: "net (env_always (FetchResolves (json_response 404 (JObj [(''detail'', JStr ''Not Found'')]))))
             (length (calls (new_ApiService ''http://localhost:8000'')))
             (request_config (new_ApiService ''http://localhost:8000'') ''/chat/'' no_options)
           = FetchResolves (json_response 404 (JObj [(''detail'', JStr ''Not Found'')]))
           \<and> \<not> ok (json_response 404 (JObj [(''detail'', JStr ''Not Found'')]))"
    by (simp add: env_always_def json_response_def ok_def)
  have b: "resp_json (json_response 404 (JObj [(''detail'', JStr ''Not Found'')]))
             = Inr (JObj [(''detail'', JStr ''Not Found'')])
           \<and> map_of [(''detail'', JStr ''Not Found'')] ''message'' = None"
    by (simp add: json_response_def)
  have c: "net dead_env (length (calls (new_ApiService ''http://localhost:8000'')))
             (request_config (new_ApiService ''http://localhost:8000'') ''/chat/'' no_options)
           = FetchRejects ''Failed to fetch''"
    by (simp add: dead_env_def env_always_def)
  have "fst (request (env_always (FetchResolves (json_response 404 (JObj [(''detail'', JStr ''Not Found'')]))))
          (new_ApiService ''http://localhost:8000'') ''/chat/'' no_options)
     = Inl (ApiError (''HTTP '' @ show_nat (resp_status (json_response 404 (JObj [(''detail'', JStr ''Not Found'')]))))
              (resp_status (json_response 404 (JObj [(''detail'', JStr ''Not Found'')])))
              (map_of [(''detail'', JStr ''Not Found'')] ''code''))"
    by (rule request_error_mapping [THEN conjunct2, THEN mp, OF a, THEN conjunct2, THEN conjunct1,
          THEN mp, OF b])
  then have x: "fst (request (env_always (FetchResolves (json_response 404 (JObj [(''detail'', JStr ''Not Found'')]))))
          (new_ApiService ''http://localhost:8000'') ''/chat/'' no_options)
     = Inl (ApiError ''HTTP 404'' 404 None)"
    by (simp add: json_response_def show_nat.simps digit_char_def)
  have "fst (request dead_env (new_ApiService ''http://localhost:8000'') ''/chat/'' no_options)
     = Inl (ApiError (if ''Failed to fetch'' = [] then ''Network error'' else ''Failed to fetch'') 0
              (Some (JStr ''NETWORK_ERROR'')))"
    by (rule request_error_mapping [THEN conjunct1, THEN mp, OF c])
  then have y: "fst (request dead_env (new_ApiService ''http://localhost:8000'') ''/chat/'' no_options)
     = Inl (ApiError ''Failed to fetch'' 0 (Some (JStr ''NETWORK_ERROR'')))"
    by simp
  show ?thesis by (rule conjI [OF x y])
qed

subsection \<open>Streaming\<close>











subsection \<open>Batch upload\<close>

lemma upload_config:
  "request_config s ''/rag/ingest/upload''
     \<lparr>opt_method = Some ''POST'', opt_body = Some (FormBody file None),
      opt_headers = Some [], opt_stream = False\<rparr>
   = upload_request (baseUrl s) file"
  by (simp add: request_config_def upload_request_def)

lemma upload_try:
  "upload_succeeds out =
     (case request_try out False of
        Inl e \<Rightarrow> False
      | Inr v \<Rightarrow> \<not> isl (rr_prop v ''chunks_created''))"
proof (cases out)
  case (FetchRejects m)
  then show ?thesis by (simp add: upload_succeeds_def request_try_def)
next
  case (FetchResolves r)
  show ?thesis
  proof (cases "ok r")
    case False
    then show ?thesis
      by (simp add: FetchResolves upload_succeeds_def request_try_def bind_err_def Let_def
          split: sum.splits)
  next
    case True
    show ?thesis
    proof (cases "resp_json r")
      case (Inl m)
      with True show ?thesis by (simp add: FetchResolves upload_succeeds_def request_try_def)
    next
      case (Inr j)
      with True show ?thesis
        by (cases j) (simp_all add: FetchResolves upload_succeeds_def request_try_def)
    qed
  qed
qed

text \<open>One upload by the controller.\<close>

lemma hook_upload:
  "useDocuments_uploadDocument E s d file = (r, d', s') \<Longrightarrow>
     calls s' = calls s @ [upload_request (baseUrl s) file] \<and>
     baseUrl s' = baseUrl s \<and>
     (\<not> isl r) = upload_succeeds (net E (length (calls s)) (upload_request (baseUrl s) file)) \<and>
     (isl r \<longrightarrow> documents d' = documents d) \<and>
     (\<not> isl r \<longrightarrow> (\<exists>doc. documents d' = documents d @ [doc] \<and> doc_status doc = ''indexed'' \<and>
                           doc_name doc = file_name file))"
proof -
  assume u: "useDocuments_uploadDocument E s d file = (r, d', s')"
  obtain q s1 where rq: "uploadDocument E s file None = (q, s1)"
    by (cases "uploadDocument E s file None")
  have s1: "s1 = s\<lparr>calls := calls s @ [upload_request (baseUrl s) file]\<rparr>"
    using rq request_state [of E s "''/rag/ingest/upload''"
      "\<lparr>opt_method = Some ''POST'', opt_body = Some (FormBody file None),
        opt_headers = Some [], opt_stream = False\<rparr>"]
    by (simp add: uploadDocument_def upload_config)
  have q: "q = (case request_try (net E (length (calls s)) (upload_request (baseUrl s) file)) False of
                  Inl error \<Rightarrow> Inl (request_catch error) | Inr v \<Rightarrow> Inr v)"
    using rq request_result [of E s "''/rag/ingest/upload''"
      "\<lparr>opt_method = Some ''POST'', opt_body = Some (FormBody file None),
        opt_headers = Some [], opt_stream = False\<rparr>"]
    by (simp add: uploadDocument_def upload_config)
  show ?thesis
  proof (cases "request_try (net E (length (calls s)) (upload_request (baseUrl s) file)) False")
    case (Inl error)
    have us: "\<not> upload_succeeds (net E (length (calls s)) (upload_request (baseUrl s) file))"
      by (simp add: upload_try Inl)
    have rq': "uploadDocument E s file None = (Inl (request_catch error), s1)"
      using rq q by (simp add: Inl)
    from u show ?thesis
      by (simp add: useDocuments_uploadDocument_def rq' us) (auto simp: s1)
  next
    case (Inr v)
    have rq': "uploadDocument E s file None = (Inr v, s1)"
      using rq q by (simp add: Inr)
    show ?thesis
    proof (cases "rr_prop v ''chunks_created''")
      case (Inl err)
      have us: "\<not> upload_succeeds (net E (length (calls s)) (upload_request (baseUrl s) file))"
        by (simp add: upload_try Inr Inl)
      from u show ?thesis
        by (simp add: useDocuments_uploadDocument_def rq' us Inl date_now_def) (auto simp: s1)
    next
      case chunks: (Inr c)
      have us: "upload_succeeds (net E (length (calls s)) (upload_request (baseUrl s) file))"
        by (simp add: upload_try Inr chunks)
      from u show ?thesis
        by (simp add: useDocuments_uploadDocument_def rq' us chunks date_now_def Let_def)
           (auto simp: s1)
    qed
  qed
qed

lemma upload_loop_results:
  "upload_loop E s d files results = (results', d', s') \<Longrightarrow>
     \<exists>rs new. results' = results @ rs \<and>
       map ur_success rs = upload_flags E (baseUrl s) (length (calls s)) files \<and>
       map ur_file rs = map file_name files \<and>
       documents d' = documents d @ new \<and>
       length new = length (filter (\<lambda>b. b) (upload_flags E (baseUrl s) (length (calls s)) files)) \<and>
       (\<forall>doc\<in>set new. doc_status doc = ''indexed'')"
proof (induction files arbitrary: s d results)
  case Nil
  then show ?case by simp
next
  case (Cons f fs)
  obtain r d1 s1 where up: "useDocuments_uploadDocument E s d f = (r, d1, s1)"
    by (cases "useDocuments_uploadDocument E s d f") auto
  note one = hook_upload [OF up]
  define entry where "entry =
    (case r of
       Inr result \<Rightarrow> \<lparr>ur_file = file_name f, ur_success = True,
                       ur_result = Some result, ur_error = None\<rparr>
     | Inl err \<Rightarrow> \<lparr>ur_file = file_name f, ur_success = False,
                    ur_result = None, ur_error = Some err\<rparr>)"
  have step: "upload_loop E s d (f # fs) results = upload_loop E s1 d1 fs (results @ [entry])"
    by (cases r) (simp_all add: up entry_def)
  have ent: "ur_file entry = file_name f" "ur_success entry = (\<not> isl r)"
    by (cases r; simp add: entry_def)+
  from Cons.prems step have "upload_loop E s1 d1 fs (results @ [entry]) = (results', d', s')"
    by simp
  from Cons.IH [OF this] obtain rs new where
    rs: "results' = (results @ [entry]) @ rs"
    and fl: "map ur_success rs = upload_flags E (baseUrl s1) (length (calls s1)) fs"
    and nm: "map ur_file rs = map file_name fs"
    and dc: "documents d' = documents d1 @ new"
    and ln: "length new = length (filter (\<lambda>b. b) (upload_flags E (baseUrl s1) (length (calls s1)) fs))"
    and ix: "\<forall>doc\<in>set new. doc_status doc = ''indexed''"
    by blast
  have b1: "baseUrl s1 = baseUrl s" and c1: "length (calls s1) = Suc (length (calls s))"
    using one by simp_all
  have su: "(\<not> isl r) = upload_succeeds (net E (length (calls s)) (upload_request (baseUrl s) f))"
    using one by simp
  show ?case
  proof (cases "isl r")
    case True
    with one have d1: "documents d1 = documents d" by simp
    show ?thesis
      apply (rule exI [of _ "entry # rs"], rule exI [of _ new])
      using rs fl nm dc ln ix ent b1 c1 su True d1 by simp
  next
    case False
    with one obtain doc where d1: "documents d1 = documents d @ [doc]"
      and st: "doc_status doc = ''indexed''" by blast
    show ?thesis
      apply (rule exI [of _ "entry # rs"], rule exI [of _ "doc # new"])
      using rs fl nm dc ln ix ent b1 c1 su False d1 st by simp
  qed
qed

lemma count_others: "length (filter (\<lambda>i. i \<noteq> k) [0..<n]) = (if k < n then n - 1 else n)"
  by (induction n) auto

lemma count_one: "length (filter (\<lambda>i. i = k) [0..<n]) = (if k < n then 1 else 0)"
  by (induction n) auto

text \<open>
  Claim C9. When the network lets every upload of a batch of \<open>N\<close> files through except
  that of file \<open>k\<close>, \<^verbatim>\<open>uploadMultiple\<close> resolves with \<open>N\<close> results, one per file in order,
  of which exactly the \<open>k\<close>-th is reported as failed, and the document collection gains
  exactly \<open>N - 1\<close> records, all with status \<^verbatim>\<open>indexed\<close>: the failure neither stops the
  loop nor removes what the other uploads added.
\<close>

theorem batch_upload_isolation:
  "k < length files \<Longrightarrow>
   upload_flags E (baseUrl s) (length (calls s)) files = map (\<lambda>i. i \<noteq> k) [0..<length files] \<Longrightarrow>
     length (fst (uploadMultiple E s d files)) = length files \<and>
     map ur_success (fst (uploadMultiple E s d files)) = map (\<lambda>i. i \<noteq> k) [0..<length files] \<and>
     map ur_file (fst (uploadMultiple E s d files)) = map file_name files \<and>
     length (filter (\<lambda>r. \<not> ur_success r) (fst (uploadMultiple E s d files))) = 1 \<and>
     (\<exists>new. documents (fst (snd (uploadMultiple E s d files))) = documents d @ new \<and>
            length new = length files - 1 \<and>
            (\<forall>doc\<in>set new. doc_status doc = ''indexed''))"
proof -
  assume k: "k < length files"
    and fl: "upload_flags E (baseUrl s) (length (calls s)) files = map (\<lambda>i. i \<noteq> k) [0..<length files]"
  obtain results d' s' where um: "uploadMultiple E s d files = (results, d', s')"
    by (cases "uploadMultiple E s d files") auto
  then have "upload_loop E s d files [] = (results, d', s')" by (simp add: uploadMultiple_def)
  from upload_loop_results [OF this] obtain new where
    su: "map ur_success results = upload_flags E (baseUrl s) (length (calls s)) files"
    and nm: "map ur_file results = map file_name files"
    and dc: "documents d' = documents d @ new"
    and ln: "length new = length (filter (\<lambda>b. b) (upload_flags E (baseUrl s) (length (calls s)) files))"
    and ix: "\<forall>doc\<in>set new. doc_status doc = ''indexed''"
    by auto
  have len: "length results = length files"
    using nm by (metis length_map)
  have failed: "length (filter (\<lambda>r. \<not> ur_success r) results) = 1"
  proof -
    have "length (filter (\<lambda>r. \<not> ur_success r) results)
            = length (filter Not (map ur_success results))"
      by (simp add: filter_map comp_def)
    also have "\<dots> = length (filter (\<lambda>i. i = k) [0..<length files])"
      by (simp add: su fl filter_map comp_def)
    finally show ?thesis using k by (simp add: count_one)
  qed
  have gained: "length new = length files - 1"
    using ln k by (simp add: fl filter_map comp_def count_others)
  show ?thesis
    using len su nm failed dc gained ix by (simp add: um fl)
qed

theorem batch_upload_isolation_witness:
  "1 < length three_files \<and>
   upload_flags second_fetch_fails (baseUrl (new_ApiService ''http://localhost:8000''))
       (length (calls (new_ApiService ''http://localhost:8000''))) three_files
     = map (\<lambda>i. i \<noteq> 1) [0..<length three_files] \<and>
   length (fst (uploadMultiple second_fetch_fails (new_ApiService ''http://localhost:8000'')
                  useDocuments_init three_files)) = length three_files \<and>
   length (filter (\<lambda>r. \<not> ur_success r)
             (fst (uploadMultiple second_fetch_fails (new_ApiService ''http://localhost:8000'')
                     useDocuments_init three_files))) = 1 \<and>
   (\<exists>new. documents (fst (snd (uploadMultiple second_fetch_fails
                                   (new_ApiService ''http://localhost:8000'')
                                   useDocuments_init three_files)))
            = documents useDocuments_init @ new \<and>
          length new = length three_files - 1 \<and>
          (\<forall>doc\<in>set new. doc_status doc = ''indexed''))"
proof -
  have h1: "1 < length three_files" by (simp add: three_files_def)
  have u: "[0..<length three_files] = [0, 1, 2]"
    by (simp add: three_files_def upt_rec)
  have h2: "upload_flags second_fetch_fails (baseUrl (new_ApiService ''http://localhost:8000''))
       (length (calls (new_ApiService ''http://localhost:8000''))) three_files
     = map (\<lambda>i. i \<noteq> 1) [0..<length three_files]"
    unfolding u
    by (simp add: three_files_def new_ApiService_def second_fetch_fails_def upload_succeeds_def
        json_response_def ok_def)
  note t = batch_upload_isolation [OF h1 h2, of useDocuments_init]
  show ?thesis
    by (intro conjI h1 h2 t [THEN conjunct1]
        t [THEN conjunct2, THEN conjunct2, THEN conjunct2, THEN conjunct1]
        t [THEN conjunct2, THEN conjunct2, THEN conjunct2, THEN conjunct2])
qed

end
